theory Spec2Isabelle
  imports Main
begin

section \<open>posixmqcontrol: data model\<close>

text \<open>
  The program \<^verbatim>\<open>posixmqcontrol.c\<close> is a command-line tool over POSIX message queues.
  It keeps its configuration in file-scope variables, parses its options through a
  table of descriptors, and then runs one verb over the collected queue names.

  The embedding is state passing: the file-scope variables, the two output streams,
  \<^verbatim>\<open>errno\<close> and the state of the message-queue service are the fields of one
  record, and every C function that touches them takes the record and returns it
  updated. C strings are HOL strings: the end of the list is the terminating NUL.
  All output is assumed to succeed and to leave \<^verbatim>\<open>errno\<close> alone, and
  \<^verbatim>\<open>malloc\<close> is assumed to succeed.
\<close>

subsection \<open>Types of the C library and the queue service\<close>

text \<open>The flags given to \<^verbatim>\<open>mq_open\<close>. An \<^verbatim>\<open>int\<close> of or-ed bits is the list of the bits set.\<close>

datatype oflag = O_RDONLY | O_WRONLY | O_RDWR | O_NONBLOCK | O_CREAT

definition flag_or :: "oflag list \<Rightarrow> oflag \<Rightarrow> oflag list" where
  "flag_or flags f = (if f \<in> set flags then flags else flags @ [f])"

record mq_attr =
  mq_flags :: "oflag list"
  mq_maxmsg :: int
  mq_msgsize :: int
  mq_curmsgs :: int

record stat =
  st_uid :: nat
  st_gid :: nat
  st_mode :: nat

type_synonym mqd_t = nat

text \<open>
  \<^verbatim>\<open>struct Creation\<close>. The field \<^verbatim>\<open>size\<close> is \<open>size_c\<close> here, since \<open>size\<close> is a
  constant of HOL. \<^verbatim>\<open>long\<close> is \<open>int\<close>, \<^verbatim>\<open>unsigned\<close> and \<^verbatim>\<open>mode_t\<close> are \<open>nat\<close>;
  the conversions between them are written out where the code converts.
\<close>

record Creation =
  exists :: bool
  set_mode :: bool
  mode :: nat
  depth :: int
  size_c :: int
  block :: bool
  set_group :: bool
  group :: nat
  set_user :: bool
  user :: nat

text \<open>
  What the program writes to \<^verbatim>\<open>stderr\<close>, one constructor for each
  \<^verbatim>\<open>fprintf(stderr, ...)\<close> of the source, with the arguments of its format, and
  \<open>Perror\<close> for \<^verbatim>\<open>perror\<close> with the value of \<^verbatim>\<open>errno\<close> it reads.
  The three messages of \<^verbatim>\<open>sane_queue\<close> print the name with the conversion
  \<^verbatim>\<open>%-*.0s\<close>, that is as blanks, and so carry no argument.
\<close>

datatype diag =
    Error_invalid_format string string string
  | Warning_format_ignored string string string
  | Error_must_start_with_slash
  | Error_only_one_slash
  | Error_longer_than_PATH_MAX
  | Warning_bad_block_format string
  | Warning_impossible_mode string
  | Warning_bad_priority_range string
  | Warning_bad_priority_format string
  | Warning_ignoring_extra_queue string
  | Error_no_content
  | Error_depth_not_provided
  | Error_no_queue
  | Error_expected_one_queue
  | Error_size_not_provided
  | Warning_skipping string
  | Warning_truncating int
  | Error_unknown_verb string
  | Perror string int

text \<open>What the program writes to \<^verbatim>\<open>stdout\<close>.\<close>

datatype outp =
    Out_info string mq_attr
  | Out_stat stat
  | Out_recv nat string
  | Out_error int
  | Out_usage

text \<open>
  The calls to the queue service and to the file-descriptor view of a queue, as the
  program issues them. The two forms of \<^verbatim>\<open>mq_open\<close> (without and with
  \<^verbatim>\<open>O_CREAT\<close>, mode and attributes) are two constructors.
\<close>

datatype call =
    Call_mq_open string "oflag list"
  | Call_mq_open_creat string "oflag list" nat mq_attr
  | Call_mq_close mqd_t
  | Call_mq_getattr mqd_t
  | Call_mq_send mqd_t string int nat
  | Call_mq_receive mqd_t int
  | Call_mq_unlink string
  | Call_mq_getfd_np mqd_t
  | Call_fstat int
  | Call_fchown int nat nat
  | Call_fchmod int nat

text \<open>
  The environment of the program: the constants of the platform's headers that the
  source uses but does not define, whether the \<^verbatim>\<open>#if __BSD_VISIBLE\<close> blocks are
  compiled, the two lookups in the group and user databases, and the service calls.
  A service call takes the state \<open>'w\<close> of the service and returns its result with
  the new state; \<open>Inl e\<close> is a failure that sets \<^verbatim>\<open>errno\<close> to \<open>e\<close>.
\<close>

record 'w env =
  PATH_MAX :: nat
  MQ_PRIO_MAX :: int
  EINVAL :: int
  BSD_VISIBLE :: bool
  getgrnam :: "string \<Rightarrow> nat option"
  getpwnam :: "string \<Rightarrow> nat option"
  mq_open :: "string \<Rightarrow> oflag list \<Rightarrow> 'w \<Rightarrow> (int + mqd_t) \<times> 'w"
  mq_open_creat :: "string \<Rightarrow> oflag list \<Rightarrow> nat \<Rightarrow> mq_attr \<Rightarrow> 'w \<Rightarrow> (int + mqd_t) \<times> 'w"
  mq_close :: "mqd_t \<Rightarrow> 'w \<Rightarrow> (int + unit) \<times> 'w"
  mq_getattr :: "mqd_t \<Rightarrow> 'w \<Rightarrow> (int + mq_attr) \<times> 'w"
  mq_send :: "mqd_t \<Rightarrow> string \<Rightarrow> int \<Rightarrow> nat \<Rightarrow> 'w \<Rightarrow> (int + unit) \<times> 'w"
  mq_receive :: "mqd_t \<Rightarrow> int \<Rightarrow> 'w \<Rightarrow> (int + string \<times> nat) \<times> 'w"
  mq_unlink :: "string \<Rightarrow> 'w \<Rightarrow> (int + unit) \<times> 'w"
  mq_getfd_np :: "mqd_t \<Rightarrow> 'w \<Rightarrow> (int + int) \<times> 'w"
  fstat :: "int \<Rightarrow> 'w \<Rightarrow> (int + stat) \<times> 'w"
  fchown :: "int \<Rightarrow> nat \<Rightarrow> nat \<Rightarrow> 'w \<Rightarrow> (int + unit) \<times> 'w"
  fchmod :: "int \<Rightarrow> nat \<Rightarrow> 'w \<Rightarrow> (int + unit) \<times> 'w"

text \<open>
  The state of the process: the file-scope variables \<^verbatim>\<open>queues\<close>, \<^verbatim>\<open>contents\<close>,
  \<^verbatim>\<open>priority\<close> and \<^verbatim>\<open>creation\<close>, then \<^verbatim>\<open>errno\<close>, the two streams, the
  service calls issued so far (oldest first) and the state of the service.
\<close>

record 'w sys =
  queues :: "string list"
  contents :: "string list"
  priority :: int
  creation :: Creation
  errno :: int
  stderr :: "diag list"
  stdout :: "outp list"
  calls :: "call list"
  world :: 'w

definition eprint :: "diag \<Rightarrow> 'w sys \<Rightarrow> 'w sys" where
  "eprint d st = st\<lparr>stderr := stderr st @ [d]\<rparr>"

definition print :: "outp \<Rightarrow> 'w sys \<Rightarrow> 'w sys" where
  "print x st = st\<lparr>stdout := stdout st @ [x]\<rparr>"

definition perror :: "string \<Rightarrow> 'w sys \<Rightarrow> 'w sys" where
  "perror tag st = eprint (Perror tag (errno st)) st"

text \<open>
  One service call: the call is recorded, the service moves to its new state, and a
  failure stores its code in \<^verbatim>\<open>errno\<close>. The result is \<open>None\<close> on failure.
\<close>

definition service :: "call \<Rightarrow> ('w \<Rightarrow> (int + 'a) \<times> 'w) \<Rightarrow> 'w sys \<Rightarrow> 'a option \<times> 'w sys" where
  "service c f st =
     (case f (world st) of
        (Inl e, w) \<Rightarrow> (None, st\<lparr>errno := e, calls := calls st @ [c], world := w\<rparr>)
      | (Inr r, w) \<Rightarrow> (Some r, st\<lparr>calls := calls st @ [c], world := w\<rparr>))"

text \<open>\<^verbatim>\<open>mq_close\<close> as the program uses it: its \<^verbatim>\<open>int\<close> result, 0 or -1.\<close>

definition close_result :: "'w env \<Rightarrow> mqd_t \<Rightarrow> 'w sys \<Rightarrow> int \<times> 'w sys" where
  "close_result e handle st =
     (case service (Call_mq_close handle) (mq_close e handle) st of
        (None, st') \<Rightarrow> (- 1, st')
      | (Some _, st') \<Rightarrow> (0, st'))"

subsection \<open>strtol and strtoul\<close>

text \<open>
  The two conversions of the C library, for the bases 8 and 10 the program uses
  (ISO C 7.22.1.4): white space is skipped, one sign is accepted, then the longest
  run of digits of the base is converted. With no digit nothing is consumed and the
  end pointer is the start of the text. \<^verbatim>\<open>long\<close> has 64 bits; a value out of
  range is replaced by the nearest bound, and \<^verbatim>\<open>strtoul\<close> negates modulo \<open>2 ^ 64\<close>
  after a minus sign.
  The result is the value and the number of characters consumed, so that
  \<^verbatim>\<open>cursor > text\<close> is \<open>0 < consumed\<close>.
\<close>

definition LONG_MAX :: int where "LONG_MAX = 2 ^ 63 - 1"
definition LONG_MIN :: int where "LONG_MIN = - (2 ^ 63)"
definition ULONG_MAX :: int where "ULONG_MAX = 2 ^ 64 - 1"

definition isspace :: "char \<Rightarrow> bool" where
  "isspace c = (of_char c \<in> {32, 9, 10, 11, 12, 13 :: nat})"

definition digit_of :: "char \<Rightarrow> nat option" where
  "digit_of c =
     (let n = of_char c :: nat in
      if 48 \<le> n \<and> n \<le> 57 then Some (n - 48)
      else if 97 \<le> n \<and> n \<le> 122 then Some (n - 97 + 10)
      else if 65 \<le> n \<and> n \<le> 90 then Some (n - 65 + 10)
      else None)"

fun strto_digits :: "nat \<Rightarrow> string \<Rightarrow> int \<Rightarrow> nat \<Rightarrow> int \<times> nat" where
  "strto_digits base [] acc n = (acc, n)"
| "strto_digits base (c # s) acc n =
     (case digit_of c of
        None \<Rightarrow> (acc, n)
      | Some d \<Rightarrow>
          if d < base then strto_digits base s (acc * int base + int d) (n + 1) else (acc, n))"

definition strto_scan :: "nat \<Rightarrow> string \<Rightarrow> bool \<times> int \<times> nat" where
  "strto_scan base text =
     (let blanks = length (takeWhile isspace text);
          s = dropWhile isspace text;
          (neg, signs, s') =
            (case s of
               [] \<Rightarrow> (False, 0, [])
             | c # r \<Rightarrow> if c = CHR ''-'' then (True, 1, r)
                        else if c = CHR ''+'' then (False, 1, r) else (False, 0, s));
          (acc, n) = strto_digits base s' 0 0
      in if n = 0 then (neg, 0, 0) else (neg, acc, blanks + signs + n))"

definition strtoul :: "string \<Rightarrow> nat \<Rightarrow> int \<times> nat" where
  "strtoul text base =
     (case strto_scan base text of
        (neg, acc, consumed) \<Rightarrow>
          ((if ULONG_MAX < acc then ULONG_MAX
            else if neg then (2 ^ 64 - acc) mod 2 ^ 64 else acc), consumed))"

definition strtol :: "string \<Rightarrow> nat \<Rightarrow> int \<times> nat" where
  "strtol text base =
     (case strto_scan base text of
        (neg, acc, consumed) \<Rightarrow>
          ((if neg then (if 2 ^ 63 < acc then LONG_MIN else - acc)
            else (if LONG_MAX < acc then LONG_MAX else acc)), consumed))"

section \<open>Option parsing utilities\<close>

text \<open>
  \<^verbatim>\<open>parse_long\<close> and \<^verbatim>\<open>parse_unsigned\<close> write through pointers; here they take the
  current value of what the pointers designate and return the new one. The
  assignment \<^verbatim>\<open>unsigned value = strtoul(...)\<close> keeps the low 32 bits.
\<close>

definition parse_long :: "string \<Rightarrow> int \<Rightarrow> string \<Rightarrow> string \<Rightarrow> 'w sys \<Rightarrow> int \<times> 'w sys" where
  "parse_long text capture knob name st =
     (case strtol text 10 of
        (val, cursor) \<Rightarrow>
          if 0 < cursor then (val, st)
          else (capture, eprint (Error_invalid_format knob name text) st))"

definition parse_unsigned ::
  "string \<Rightarrow> bool \<times> nat \<Rightarrow> string \<Rightarrow> string \<Rightarrow> 'w sys \<Rightarrow> (bool \<times> nat) \<times> 'w sys" where
  "parse_unsigned text set_capture knob name st =
     (case strtoul text 8 of
        (val, cursor) \<Rightarrow>
          if 0 < cursor then ((True, nat (val mod 2 ^ 32)), st)
          else (set_capture, eprint (Warning_format_ignored knob name text) st))"

text \<open>
  The loop of \<^verbatim>\<open>sane_queue\<close> over the characters after the first: \<open>None\<close> when it
  returns false at a second \<^verbatim>\<open>'/'\<close>, else the rest of the text and the count where
  the loop stops.
\<close>

fun sane_queue_loop :: "nat \<Rightarrow> string \<Rightarrow> nat \<Rightarrow> (string \<times> nat) option" where
  "sane_queue_loop pmax [] n = Some ([], n)"
| "sane_queue_loop pmax (c # queue) n =
     (if n < pmax then
        (if c = CHR ''/'' then None else sane_queue_loop pmax queue (n + 1))
      else Some (c # queue, n))"

definition sane_queue :: "'w env \<Rightarrow> string \<Rightarrow> 'w sys \<Rightarrow> bool \<times> 'w sys" where
  "sane_queue e text st =
     (case text of
        [] \<Rightarrow> (False, eprint Error_must_start_with_slash st)
      | c # queue \<Rightarrow>
          if c \<noteq> CHR ''/'' then (False, eprint Error_must_start_with_slash st)
          else (case sane_queue_loop (PATH_MAX e) queue 1 of
                  None \<Rightarrow> (False, eprint Error_only_one_slash st)
                | Some (queue', n) \<Rightarrow>
                    if n = PATH_MAX e \<and> queue' \<noteq> []
                    then (False, eprint Error_longer_than_PATH_MAX st)
                    else (True, st)))"

section \<open>Option parsers\<close>

definition parse_block :: "string \<Rightarrow> 'w sys \<Rightarrow> 'w sys" where
  "parse_block text st =
     (if text = ''true'' \<or> text = ''yes'' then st\<lparr>creation := (creation st)\<lparr>block := True\<rparr>\<rparr>
      else if text = ''false'' \<or> text = ''no'' then st\<lparr>creation := (creation st)\<lparr>block := False\<rparr>\<rparr>
      else (case strtol text 10 of
              (val, cursor) \<Rightarrow>
                if 0 < cursor then st\<lparr>creation := (creation st)\<lparr>block := (val \<noteq> 0)\<rparr>\<rparr>
                else eprint (Warning_bad_block_format text) st))"

definition parse_content :: "string \<Rightarrow> 'w sys \<Rightarrow> 'w sys" where
  "parse_content content st = st\<lparr>contents := contents st @ [content]\<rparr>"

definition parse_depth :: "string \<Rightarrow> 'w sys \<Rightarrow> 'w sys" where
  "parse_depth text st =
     (case parse_long text (depth (creation st)) ''-d'' ''depth'' st of
        (val, st') \<Rightarrow> st'\<lparr>creation := (creation st')\<lparr>depth := val\<rparr>\<rparr>)"

definition parse_group :: "'w env \<Rightarrow> string \<Rightarrow> 'w sys \<Rightarrow> 'w sys" where
  "parse_group e text st =
     (case getgrnam e text of
        None \<Rightarrow>
          (case parse_unsigned text (set_group (creation st), group (creation st)) ''-g'' ''group'' st of
             ((seen, val), st') \<Rightarrow> st'\<lparr>creation := (creation st')\<lparr>set_group := seen, group := val\<rparr>\<rparr>)
      | Some gr_gid \<Rightarrow> st\<lparr>creation := (creation st)\<lparr>set_group := True, group := gr_gid\<rparr>\<rparr>)"

text \<open>\<^verbatim>\<open>010000\<close> is octal: 4096.\<close>

definition parse_mode :: "string \<Rightarrow> 'w sys \<Rightarrow> 'w sys" where
  "parse_mode text st =
     (case strtol text 8 of
        (val, cursor) \<Rightarrow>
          if 0 < cursor \<and> 0 < val \<and> val < 4096
          then st\<lparr>creation := (creation st)\<lparr>set_mode := True, mode := nat val\<rparr>\<rparr>
          else eprint (Warning_impossible_mode text) st)"

definition parse_priority :: "'w env \<Rightarrow> string \<Rightarrow> 'w sys \<Rightarrow> 'w sys" where
  "parse_priority e text st =
     (case strtol text 10 of
        (val, cursor) \<Rightarrow>
          if 0 < cursor then
            (if 0 \<le> val \<and> val < MQ_PRIO_MAX e then st\<lparr>priority := val\<rparr>
             else eprint (Warning_bad_priority_range text) st)
          else eprint (Warning_bad_priority_format text) st)"

definition parse_queue :: "'w env \<Rightarrow> string \<Rightarrow> 'w sys \<Rightarrow> 'w sys" where
  "parse_queue e queue st =
     (case sane_queue e queue st of
        (sane, st') \<Rightarrow> if sane then st'\<lparr>queues := queues st' @ [queue]\<rparr> else st')"

definition parse_single_queue :: "'w env \<Rightarrow> string \<Rightarrow> 'w sys \<Rightarrow> 'w sys" where
  "parse_single_queue e queue st =
     (case sane_queue e queue st of
        (sane, st') \<Rightarrow>
          if sane then
            (if queues st' = [] then st'\<lparr>queues := queues st' @ [queue]\<rparr>
             else eprint (Warning_ignoring_extra_queue queue) st')
          else st')"

definition parse_size :: "string \<Rightarrow> 'w sys \<Rightarrow> 'w sys" where
  "parse_size text st =
     (case parse_long text (size_c (creation st)) ''-s'' ''size'' st of
        (val, st') \<Rightarrow> st'\<lparr>creation := (creation st')\<lparr>size_c := val\<rparr>\<rparr>)"

definition parse_user :: "'w env \<Rightarrow> string \<Rightarrow> 'w sys \<Rightarrow> 'w sys" where
  "parse_user e text st =
     (case getpwnam e text of
        None \<Rightarrow>
          (case parse_unsigned text (set_user (creation st), user (creation st)) ''-u'' ''user'' st of
             ((seen, val), st') \<Rightarrow> st'\<lparr>creation := (creation st')\<lparr>set_user := seen, user := val\<rparr>\<rparr>)
      | Some pw_uid \<Rightarrow> st\<lparr>creation := (creation st)\<lparr>set_user := True, user := pw_uid\<rparr>\<rparr>)"

section \<open>Option validators\<close>

text \<open>A validator reads the file-scope variables and returns its verdict; some print.\<close>

definition validate_always_true :: "'w sys \<Rightarrow> bool \<times> 'w sys" where
  "validate_always_true st = (True, st)"

definition validate_content :: "'w sys \<Rightarrow> bool \<times> 'w sys" where
  "validate_content st =
     (let valid = (contents st \<noteq> []) in
      (valid, if \<not> valid then eprint Error_no_content st else st))"

definition validate_depth :: "'w sys \<Rightarrow> bool \<times> 'w sys" where
  "validate_depth st =
     (let valid = (exists (creation st) \<or> 0 < depth (creation st)) in
      (valid, if \<not> valid then eprint Error_depth_not_provided st else st))"

definition validate_mode :: "'w sys \<Rightarrow> bool \<times> 'w sys" where
  "validate_mode st = (0 < mode (creation st), st)"

definition validate_queue :: "'w sys \<Rightarrow> bool \<times> 'w sys" where
  "validate_queue st =
     (let valid = (queues st \<noteq> []) in
      (valid, if \<not> valid then eprint Error_no_queue st else st))"

definition validate_single_queue :: "'w sys \<Rightarrow> bool \<times> 'w sys" where
  "validate_single_queue st =
     (let valid = (queues st \<noteq> [] \<and> tl (queues st) = []) in
      (valid, if \<not> valid then eprint Error_expected_one_queue st else st))"

definition validate_size :: "'w sys \<Rightarrow> bool \<times> 'w sys" where
  "validate_size st =
     (let valid = (exists (creation st) \<or> 0 < size_c (creation st)) in
      (valid, if \<not> valid then eprint Error_size_not_provided st else st))"

section \<open>Option tables\<close>

text \<open>\<^verbatim>\<open>struct Option\<close>; the name \<open>Option\<close> is a theory of HOL.\<close>

record 'w Option_t =
  pattern :: "string list"
  parse :: "string \<Rightarrow> 'w sys \<Rightarrow> 'w sys"
  validate :: "'w sys \<Rightarrow> bool \<times> 'w sys"

text \<open>
  The innermost loop of \<^verbatim>\<open>parse_options\<close>: the spellings of one option are compared
  with the argument in turn, until one is equal.
\<close>

fun match_pattern :: "string list \<Rightarrow> string \<Rightarrow> bool" where
  "match_pattern [] arg = False"
| "match_pattern (knob # knobs) arg = (if knob = arg then True else match_pattern knobs arg)"

text \<open>
  The loop over the table: the first option with a matching spelling, if any.
\<close>

fun match_option :: "'w Option_t list \<Rightarrow> string \<Rightarrow> 'w Option_t option" where
  "match_option [] arg = None"
| "match_option (option # cursor) arg =
     (if match_pattern (pattern option) arg then Some option else match_option cursor arg)"

text \<open>
  \<^verbatim>\<open>parse_options\<close>. \<open>argc\<close> is the length of \<open>argv\<close>; every \<open>argv ! i\<close> below is
  read under \<open>i < length argv\<close>.
\<close>

function parse_options :: "nat \<Rightarrow> string list \<Rightarrow> 'w Option_t list \<Rightarrow> 'w sys \<Rightarrow> 'w sys" where
  "parse_options index argv options st =
     (if index + 1 < length argv then
        (case match_option options (argv ! index) of
           Some option \<Rightarrow>
             parse_options (index + 2) argv options (parse option (argv ! (index + 1)) st)
         | None \<Rightarrow>
             (if index < length argv
              then parse_options (index + 1) argv options (eprint (Warning_skipping (argv ! index)) st)
              else parse_options index argv options st))
      else if index < length argv then eprint (Warning_skipping (argv ! index)) st
      else st)"
  by pat_completeness auto
termination
  by (relation "measure (\<lambda>(index, argv, options, st). length argv - index)") auto

declare parse_options.simps [simp del]

text \<open>\<^verbatim>\<open>validate_options\<close>: the loop, with the running \<^verbatim>\<open>valid\<close> as an argument.\<close>

fun validate_options_loop :: "'w Option_t list \<Rightarrow> bool \<Rightarrow> 'w sys \<Rightarrow> bool \<times> 'w sys" where
  "validate_options_loop [] valid st = (valid, st)"
| "validate_options_loop (option # options) valid st =
     (case validate option st of
        (ok, st') \<Rightarrow> validate_options_loop options (if \<not> ok then False else valid) st')"

definition validate_options :: "'w Option_t list \<Rightarrow> 'w sys \<Rightarrow> bool \<times> 'w sys" where
  "validate_options options st = validate_options_loop options True st"

section \<open>Subcommands\<close>

text \<open>
  The part of \<^verbatim>\<open>create\<close> under \<^verbatim>\<open>#if __BSD_VISIBLE\<close>, in its three steps. In
  each, \<open>Some what\<close> is an early \<^verbatim>\<open>return what\<close> and \<open>None\<close> goes on to the next
  statement.

  First the change of owner, done only if a group or a user was given; it assigns to
  the fields \<^verbatim>\<open>user\<close> and \<^verbatim>\<open>group\<close> of the local copy, which it returns.
\<close>

definition create_fchown ::
  "'w env \<Rightarrow> mqd_t \<Rightarrow> int \<Rightarrow> stat \<Rightarrow> Creation \<Rightarrow> 'w sys \<Rightarrow> int option \<times> Creation \<times> 'w sys" where
  "create_fchown e handle fd status q_creation st =
     (if set_group q_creation \<or> set_user q_creation then
        (let q1 = q_creation\<lparr>user := (if set_user q_creation then user q_creation else st_uid status)\<rparr>;
             q2 = q1\<lparr>group := (if set_group q1 then group q1 else st_gid status)\<rparr>
         in case service (Call_fchown fd (user q2) (group q2)) (fchown e fd (user q2) (group q2)) st of
              (None, st1) \<Rightarrow>
                (let what = errno st1 in
                 (Some what, q2, snd (close_result e handle (perror ''fchown(create)'' st1))))
            | (Some _, st1) \<Rightarrow> (None, q2, st1))
      else (None, q_creation, st))"

text \<open>
  Then the change of mode, done only for a queue that existed, when a mode was given
  and differs from the masked mode of the status. \<^verbatim>\<open>0x06777\<close> is hexadecimal: 26487.
\<close>

definition create_fchmod ::
  "'w env \<Rightarrow> mqd_t \<Rightarrow> int \<Rightarrow> stat \<Rightarrow> Creation \<Rightarrow> 'w sys \<Rightarrow> int option \<times> 'w sys" where
  "create_fchmod e handle fd status q_creation st =
     (if exists q_creation \<and> set_mode q_creation \<and> mode q_creation \<noteq> and (st_mode status) 26487 then
        (case service (Call_fchmod fd (mode q_creation)) (fchmod e fd (mode q_creation)) st of
           (None, st1) \<Rightarrow>
             (let what = errno st1 in
              (Some what, snd (close_result e handle (perror ''fchmod(create)'' st1))))
         | (Some _, st1) \<Rightarrow> (None, st1))
      else (None, st))"

text \<open>The whole block: the file descriptor of the queue, its status, and the two steps.\<close>

definition create_bsd :: "'w env \<Rightarrow> mqd_t \<Rightarrow> Creation \<Rightarrow> 'w sys \<Rightarrow> int option \<times> 'w sys" where
  "create_bsd e handle q_creation st =
     (case service (Call_mq_getfd_np handle) (mq_getfd_np e handle) st of
        (None, st1) \<Rightarrow>
          (let what = errno st1 in
           (Some what, snd (close_result e handle (perror ''mq_getfd_np(create)'' st1))))
      | (Some fd, st1) \<Rightarrow>
          (case service (Call_fstat fd) (fstat e fd) st1 of
             (None, st2) \<Rightarrow>
               (let what = errno st2 in
                (Some what, snd (close_result e handle (perror ''fstat(create)'' st2))))
           | (Some status, st2) \<Rightarrow>
               (case create_fchown e handle fd status q_creation st2 of
                  (Some what, q2, st3) \<Rightarrow> (Some what, st3)
                | (None, q2, st3) \<Rightarrow> create_fchmod e handle fd status q2 st3)))"

text \<open>
  \<^verbatim>\<open>create\<close> from the test \<^verbatim>\<open>handle == fail\<close> on. \<open>handle\<close> is \<open>None\<close> for
  \<^verbatim>\<open>fail\<close>.
\<close>

definition create_opened :: "'w env \<Rightarrow> mqd_t option \<Rightarrow> Creation \<Rightarrow> 'w sys \<Rightarrow> int \<times> 'w sys" where
  "create_opened e handle q_creation st =
     (case handle of
        None \<Rightarrow> (let what = errno st in (what, perror ''mq_open(create)'' st))
      | Some h \<Rightarrow>
          if BSD_VISIBLE e then
            (case create_bsd e h q_creation st of
               (Some what, st') \<Rightarrow> (what, st')
             | (None, st') \<Rightarrow> close_result e h st')
          else close_result e h st)"

text \<open>
  \<^verbatim>\<open>create\<close>. \<open>q_creation\<close> is the copy the caller passes by value; the validators
  \<^verbatim>\<open>validate_size\<close> and \<^verbatim>\<open>validate_depth\<close> read the file-scope \<^verbatim>\<open>creation\<close>.
\<close>

definition create :: "'w env \<Rightarrow> string \<Rightarrow> Creation \<Rightarrow> 'w sys \<Rightarrow> int \<times> 'w sys" where
  "create e queue q_creation st =
     (let flags = (if \<not> block q_creation then flag_or [O_RDWR] O_NONBLOCK else [O_RDWR]);
          stuff = \<lparr>mq_flags = (if \<not> block q_creation then flag_or [] O_NONBLOCK else []),
                   mq_maxmsg = depth q_creation, mq_msgsize = size_c q_creation, mq_curmsgs = 0\<rparr>
      in case service (Call_mq_open queue flags) (mq_open e queue flags) st of
           (handle, st1) \<Rightarrow>
             (let q1 = q_creation\<lparr>exists := (handle \<noteq> None)\<rparr> in
              if \<not> exists q1 then
                (case validate_size st1 of
                   (False, st2) \<Rightarrow> create_opened e handle q1 st2
                 | (True, st2) \<Rightarrow>
                     (case validate_depth st2 of
                        (False, st3) \<Rightarrow> create_opened e handle q1 st3
                      | (True, st3) \<Rightarrow>
                          (let q2 = q1\<lparr>set_mode := False\<rparr>;
                               flags' = flag_or flags O_CREAT
                           in case service (Call_mq_open_creat queue flags' (mode q2) stuff)
                                     (mq_open_creat e queue flags' (mode q2) stuff) st3 of
                                (handle', st4) \<Rightarrow> create_opened e handle' q2 st4)))
              else create_opened e handle q1 st1))"

definition rm :: "'w env \<Rightarrow> string \<Rightarrow> 'w sys \<Rightarrow> int \<times> 'w sys" where
  "rm e queue st =
     (case service (Call_mq_unlink queue) (mq_unlink e queue) st of
        (None, st1) \<Rightarrow> (let what = errno st1 in (what, perror ''mq_unlink'' st1))
      | (Some _, st1) \<Rightarrow> (0, st1))"

text \<open>
  \<^verbatim>\<open>info\<close>. The result of \<^verbatim>\<open>mq_getfd_np\<close> is not tested: on failure
  \<^verbatim>\<open>fstat\<close> is called with -1.
\<close>

definition info :: "'w env \<Rightarrow> string \<Rightarrow> 'w sys \<Rightarrow> int \<times> 'w sys" where
  "info e queue st =
     (case service (Call_mq_open queue [O_RDONLY]) (mq_open e queue [O_RDONLY]) st of
        (None, st1) \<Rightarrow> (let what = errno st1 in (what, perror ''mq_open(info)'' st1))
      | (Some handle, st1) \<Rightarrow>
          (case service (Call_mq_getattr handle) (mq_getattr e handle) st1 of
             (None, st2) \<Rightarrow> (let what = errno st2 in (what, perror ''mq_getattr(info)'' st2))
           | (Some actual, st2) \<Rightarrow>
               (let st3 = print (Out_info queue actual) st2 in
                if BSD_VISIBLE e then
                  (case service (Call_mq_getfd_np handle) (mq_getfd_np e handle) st3 of
                     (r, st4) \<Rightarrow>
                       (let fd = (case r of None \<Rightarrow> - 1 | Some fd \<Rightarrow> fd) in
                        case service (Call_fstat fd) (fstat e fd) st4 of
                          (None, st5) \<Rightarrow> close_result e handle (perror ''fstat(info)'' st5)
                        | (Some status, st5) \<Rightarrow> close_result e handle (print (Out_stat status) st5)))
                else close_result e handle st3)))"

text \<open>
  \<^verbatim>\<open>recv\<close>. The message is printed with \<^verbatim>\<open>%-*.*s\<close>, width and precision both the
  number of bytes received: the bytes up to a NUL, padded with blanks.
\<close>

definition recv :: "'w env \<Rightarrow> string \<Rightarrow> 'w sys \<Rightarrow> int \<times> 'w sys" where
  "recv e queue st =
     (case service (Call_mq_open queue [O_RDONLY]) (mq_open e queue [O_RDONLY]) st of
        (None, st1) \<Rightarrow>
          (let what = errno st1 in (what, print (Out_error what) (perror ''mq_open(recv)'' st1)))
      | (Some handle, st1) \<Rightarrow>
          (case service (Call_mq_getattr handle) (mq_getattr e handle) st1 of
             (None, st2) \<Rightarrow>
               (let what = errno st2 in
                (what, snd (close_result e handle (perror ''mq_attr(recv)'' st2))))
           | (Some actual, st2) \<Rightarrow>
               (case service (Call_mq_receive handle (mq_msgsize actual))
                       (mq_receive e handle (mq_msgsize actual)) st2 of
                  (None, st3) \<Rightarrow>
                    (let what = errno st3 in
                     (what, snd (close_result e handle (perror ''mq_receive'' st3))))
                | (Some (bytes, prio), st3) \<Rightarrow>
                    (let shown = takeWhile (\<lambda>c. c \<noteq> CHR 0x00) bytes;
                         padded = shown @ replicate (length bytes - length shown) CHR '' ''
                     in close_result e handle (print (Out_recv prio padded) st3)))))"

text \<open>
  \<^verbatim>\<open>send\<close>. The text is an argument of the command line, whose length the system
  bounds far below \<^verbatim>\<open>INT_MAX\<close>, so \<^verbatim>\<open>int size = strlen(text)\<close> is the length.
  \<^verbatim>\<open>mq_send\<close> is given the text and the number of its bytes to send.
\<close>

definition send :: "'w env \<Rightarrow> string \<Rightarrow> string \<Rightarrow> nat \<Rightarrow> 'w sys \<Rightarrow> int \<times> 'w sys" where
  "send e queue text q_priority st =
     (case service (Call_mq_open queue [O_WRONLY]) (mq_open e queue [O_WRONLY]) st of
        (None, st1) \<Rightarrow> (let what = errno st1 in (what, perror ''mq_open(send)'' st1))
      | (Some handle, st1) \<Rightarrow>
          (case service (Call_mq_getattr handle) (mq_getattr e handle) st1 of
             (None, st2) \<Rightarrow>
               (let what = errno st2 in
                (what, snd (close_result e handle (perror ''mq_attr(send)'' st2))))
           | (Some actual, st2) \<Rightarrow>
               (let size0 = int (length text);
                    (size1, st3) =
                      (if mq_msgsize actual < size0
                       then (mq_msgsize actual, eprint (Warning_truncating (mq_msgsize actual)) st2)
                       else (size0, st2))
                in case service (Call_mq_send handle text size1 q_priority)
                          (mq_send e handle text size1 q_priority) st3 of
                     (None, st4) \<Rightarrow>
                       (let what = errno st4 in
                        (what, snd (close_result e handle (perror ''mq_send'' st4))))
                   | (Some _, st4) \<Rightarrow> close_result e handle st4)))"

definition usage :: "'w sys \<Rightarrow> 'w sys" where
  "usage st = print Out_usage st"

section \<open>The tables of the verbs\<close>

definition names_queue :: "string list" where
  "names_queue = [''-q'', ''--queue'', ''-t'', ''--topic'']"

definition option_queue :: "'w env \<Rightarrow> 'w Option_t" where
  "option_queue e = \<lparr>pattern = names_queue, parse = parse_queue e, validate = validate_queue\<rparr>"

definition option_single_queue :: "'w env \<Rightarrow> 'w Option_t" where
  "option_single_queue e =
     \<lparr>pattern = names_queue, parse = parse_single_queue e, validate = validate_single_queue\<rparr>"

definition names_depth :: "string list" where
  "names_depth = [''-d'', ''--depth'', ''--maxmsg'']"

definition option_depth :: "'w Option_t" where
  "option_depth = \<lparr>pattern = names_depth, parse = parse_depth, validate = validate_always_true\<rparr>"

definition names_size :: "string list" where
  "names_size = [''-s'', ''--size'', ''--msgsize'']"

definition option_size :: "'w Option_t" where
  "option_size = \<lparr>pattern = names_size, parse = parse_size, validate = validate_always_true\<rparr>"

definition names_block :: "string list" where
  "names_block = [''-b'', ''--block'']"

definition option_block :: "'w Option_t" where
  "option_block = \<lparr>pattern = names_block, parse = parse_block, validate = validate_always_true\<rparr>"

definition names_content :: "string list" where
  "names_content = [''-c'', ''--content'', ''--data'', ''--message'']"

definition option_content :: "'w Option_t" where
  "option_content = \<lparr>pattern = names_content, parse = parse_content, validate = validate_content\<rparr>"

definition names_priority :: "string list" where
  "names_priority = [''-p'', ''--priority'']"

definition option_priority :: "'w env \<Rightarrow> 'w Option_t" where
  "option_priority e =
     \<lparr>pattern = names_priority, parse = parse_priority e, validate = validate_always_true\<rparr>"

definition names_mode :: "string list" where
  "names_mode = [''-m'', ''--mode'']"

definition option_mode :: "'w Option_t" where
  "option_mode = \<lparr>pattern = names_mode, parse = parse_mode, validate = validate_mode\<rparr>"

definition names_group :: "string list" where
  "names_group = [''-g'', ''--gid'']"

definition option_group :: "'w env \<Rightarrow> 'w Option_t" where
  "option_group e = \<lparr>pattern = names_group, parse = parse_group e, validate = validate_always_true\<rparr>"

definition names_user :: "string list" where
  "names_user = [''-u'', ''--uid'']"

definition option_user :: "'w env \<Rightarrow> 'w Option_t" where
  "option_user e = \<lparr>pattern = names_user, parse = parse_user e, validate = validate_always_true\<rparr>"

definition create_options :: "'w env \<Rightarrow> 'w Option_t list" where
  "create_options e =
     (if BSD_VISIBLE e
      then [option_queue e, option_depth, option_size, option_block, option_mode,
            option_group e, option_user e]
      else [option_queue e, option_depth, option_size, option_block, option_mode])"

definition info_options :: "'w env \<Rightarrow> 'w Option_t list" where
  "info_options e = [option_queue e]"

definition unlink_options :: "'w env \<Rightarrow> 'w Option_t list" where
  "unlink_options e = [option_queue e]"

definition recv_options :: "'w env \<Rightarrow> 'w Option_t list" where
  "recv_options e = [option_single_queue e]"

definition send_options :: "'w env \<Rightarrow> 'w Option_t list" where
  "send_options e = [option_queue e, option_content, option_priority e]"

section \<open>main\<close>

text \<open>
  The loops \<^verbatim>\<open>STAILQ_FOREACH\<close> of \<^verbatim>\<open>main\<close> with the running \<^verbatim>\<open>worst\<close>. The first
  argument is the list from the current element on. The body of the loop of
  \<^verbatim>\<open>create\<close> reads the file-scope \<^verbatim>\<open>creation\<close> at every call, and the body of the
  loops of \<^verbatim>\<open>send\<close> reads \<^verbatim>\<open>contents\<close> and \<^verbatim>\<open>priority\<close>, a \<^verbatim>\<open>long\<close> that the
  call converts to \<^verbatim>\<open>unsigned\<close>.
\<close>

fun create_loop :: "'w env \<Rightarrow> string list \<Rightarrow> int \<Rightarrow> 'w sys \<Rightarrow> int \<times> 'w sys" where
  "create_loop e [] worst st = (worst, st)"
| "create_loop e (queue # it) worst st =
     (case create e queue (creation st) st of
        (result, st') \<Rightarrow> create_loop e it (if result \<noteq> 0 then result else worst) st')"

fun info_loop :: "'w env \<Rightarrow> string list \<Rightarrow> int \<Rightarrow> 'w sys \<Rightarrow> int \<times> 'w sys" where
  "info_loop e [] worst st = (worst, st)"
| "info_loop e (queue # it) worst st =
     (case info e queue st of
        (result, st') \<Rightarrow> info_loop e it (if result \<noteq> 0 then result else worst) st')"

fun send_content_loop :: "'w env \<Rightarrow> string \<Rightarrow> string list \<Rightarrow> int \<Rightarrow> 'w sys \<Rightarrow> int \<times> 'w sys" where
  "send_content_loop e queue [] worst st = (worst, st)"
| "send_content_loop e queue (content # itc) worst st =
     (case send e queue content (nat (priority st mod 2 ^ 32)) st of
        (result, st') \<Rightarrow>
          send_content_loop e queue itc (if result \<noteq> 0 then result else worst) st')"

fun send_loop :: "'w env \<Rightarrow> string list \<Rightarrow> int \<Rightarrow> 'w sys \<Rightarrow> int \<times> 'w sys" where
  "send_loop e [] worst st = (worst, st)"
| "send_loop e (queue # itq) worst st =
     (case send_content_loop e queue (contents st) worst st of
        (worst', st') \<Rightarrow> send_loop e itq worst' st')"

fun rm_loop :: "'w env \<Rightarrow> string list \<Rightarrow> int \<Rightarrow> 'w sys \<Rightarrow> int \<times> 'w sys" where
  "rm_loop e [] worst st = (worst, st)"
| "rm_loop e (queue # it) worst st =
     (case rm e queue st of
        (result, st') \<Rightarrow> rm_loop e it (if result \<noteq> 0 then result else worst) st')"

text \<open>The initial values of the file-scope variables.\<close>

definition creation_init :: Creation where
  "creation_init =
     \<lparr>exists = False, set_mode = False, mode = 493, depth = - 1, size_c = - 1, block = True,
      set_group = False, group = 0, set_user = False, user = 0\<rparr>"

definition init :: "'w env \<Rightarrow> 'w \<Rightarrow> 'w sys" where
  "init e w =
     \<lparr>queues = [], contents = [], priority = MQ_PRIO_MAX e div 2, creation = creation_init,
      errno = 0, stderr = [], stdout = [], calls = [], world = w\<rparr>"

text \<open>
  \<^verbatim>\<open>main\<close>, from the state of the process at its start: the value it returns and the
  final state. \<^verbatim>\<open>0755\<close> above is octal: 493.
\<close>

definition main_from :: "'w env \<Rightarrow> string list \<Rightarrow> 'w sys \<Rightarrow> int \<times> 'w sys" where
  "main_from e argv st =
     (if 1 < length argv then
        (let verb = argv ! 1; index = 2 in
         if verb = ''create'' \<or> verb = ''attr'' then
           (case validate_options (create_options e) (parse_options index argv (create_options e) st) of
              (True, st') \<Rightarrow> create_loop e (queues st') 0 st'
            | (False, st') \<Rightarrow> (EINVAL e, st'))
         else if verb = ''info'' \<or> verb = ''cat'' then
           (case validate_options (info_options e) (parse_options index argv (info_options e) st) of
              (True, st') \<Rightarrow> info_loop e (queues st') 0 st'
            | (False, st') \<Rightarrow> (EINVAL e, st'))
         else if verb = ''send'' then
           (case validate_options (send_options e) (parse_options index argv (send_options e) st) of
              (True, st') \<Rightarrow> send_loop e (queues st') 0 st'
            | (False, st') \<Rightarrow> (EINVAL e, st'))
         else if verb = ''recv'' \<or> verb = ''receive'' then
           (case validate_options (recv_options e) (parse_options index argv (recv_options e) st) of
              (True, st') \<Rightarrow> recv e (hd (queues st')) st'
            | (False, st') \<Rightarrow> (EINVAL e, st'))
         else if verb = ''unlink'' \<or> verb = ''rm'' then
           (case validate_options (unlink_options e) (parse_options index argv (unlink_options e) st) of
              (True, st') \<Rightarrow> rm_loop e (queues st') 0 st'
            | (False, st') \<Rightarrow> (EINVAL e, st'))
         else if verb = ''help'' then (0, usage st)
         else (EINVAL e, eprint (Error_unknown_verb verb) st))
      else (0, usage st))"

definition main :: "'w env \<Rightarrow> string list \<Rightarrow> 'w \<Rightarrow> int \<times> 'w sys" where
  "main e argv w = main_from e argv (init e w)"

section \<open>An in-memory queue service\<close>

text \<open>
  The queue service is outside the program. To run the program on concrete command
  lines, here is one small service: its state is the list of the queues that exist,
  a descriptor is the position of a queue in that list, and the file descriptor of a
  queue is that position too. The error codes are FreeBSD's: \<^verbatim>\<open>ENOENT\<close> 2,
  \<^verbatim>\<open>EBADF\<close> 9, \<^verbatim>\<open>EINVAL\<close> 22, \<^verbatim>\<open>EAGAIN\<close> 35, \<^verbatim>\<open>EMSGSIZE\<close> 40;
  \<^verbatim>\<open>S_IFIFO\<close> is 4096.
\<close>

record mqueue =
  mq_name :: string
  mq_uid :: nat
  mq_gid :: nat
  mq_perm :: nat
  mq_limits :: mq_attr
  mq_messages :: "(string \<times> nat) list"

fun mem_find :: "string \<Rightarrow> mqueue list \<Rightarrow> nat \<Rightarrow> nat option" where
  "mem_find name [] i = None"
| "mem_find name (q # qs) i = (if mq_name q = name then Some i else mem_find name qs (i + 1))"

definition mem_at :: "mqueue list \<Rightarrow> int \<Rightarrow> mqueue option" where
  "mem_at w i = (if 0 \<le> i \<and> nat i < length w then Some (w ! nat i) else None)"

definition mem_open :: "string \<Rightarrow> oflag list \<Rightarrow> mqueue list \<Rightarrow> (int + mqd_t) \<times> mqueue list" where
  "mem_open name flags w = (case mem_find name w 0 of None \<Rightarrow> (Inl 2, w) | Some i \<Rightarrow> (Inr i, w))"

definition mem_open_creat ::
  "string \<Rightarrow> oflag list \<Rightarrow> nat \<Rightarrow> mq_attr \<Rightarrow> mqueue list \<Rightarrow> (int + mqd_t) \<times> mqueue list" where
  "mem_open_creat name flags perm attr w =
     (case mem_find name w 0 of
        Some i \<Rightarrow> (Inr i, w)
      | None \<Rightarrow>
          if mq_maxmsg attr \<le> 0 \<or> mq_msgsize attr \<le> 0 then (Inl 22, w)
          else (Inr (length w),
                w @ [\<lparr>mq_name = name, mq_uid = 0, mq_gid = 0, mq_perm = perm,
                       mq_limits = attr, mq_messages = []\<rparr>]))"

definition mem_close :: "mqd_t \<Rightarrow> mqueue list \<Rightarrow> (int + unit) \<times> mqueue list" where
  "mem_close h w = (if h < length w then (Inr (), w) else (Inl 9, w))"

definition mem_getattr :: "mqd_t \<Rightarrow> mqueue list \<Rightarrow> (int + mq_attr) \<times> mqueue list" where
  "mem_getattr h w =
     (case mem_at w (int h) of
        None \<Rightarrow> (Inl 9, w)
      | Some q \<Rightarrow> (Inr ((mq_limits q)\<lparr>mq_curmsgs := int (length (mq_messages q))\<rparr>), w))"

definition mem_send :: "mqd_t \<Rightarrow> string \<Rightarrow> int \<Rightarrow> nat \<Rightarrow> mqueue list \<Rightarrow> (int + unit) \<times> mqueue list" where
  "mem_send h text len prio w =
     (case mem_at w (int h) of
        None \<Rightarrow> (Inl 9, w)
      | Some q \<Rightarrow>
          if len < 0 \<or> mq_msgsize (mq_limits q) < len then (Inl 40, w)
          else if mq_maxmsg (mq_limits q) \<le> int (length (mq_messages q)) then (Inl 35, w)
          else (Inr (), w[h := q\<lparr>mq_messages := mq_messages q @ [(take (nat len) text, prio)]\<rparr>]))"

definition mem_receive :: "mqd_t \<Rightarrow> int \<Rightarrow> mqueue list \<Rightarrow> (int + string \<times> nat) \<times> mqueue list" where
  "mem_receive h len w =
     (case mem_at w (int h) of
        None \<Rightarrow> (Inl 9, w)
      | Some q \<Rightarrow>
          (case mq_messages q of
             [] \<Rightarrow> (Inl 35, w)
           | m # ms \<Rightarrow> if len < mq_msgsize (mq_limits q) then (Inl 40, w)
                       else (Inr m, w[h := q\<lparr>mq_messages := ms\<rparr>])))"

definition mem_unlink :: "string \<Rightarrow> mqueue list \<Rightarrow> (int + unit) \<times> mqueue list" where
  "mem_unlink name w =
     (case mem_find name w 0 of
        None \<Rightarrow> (Inl 2, w)
      | Some i \<Rightarrow> (Inr (), take i w @ drop (i + 1) w))"

definition mem_getfd_np :: "mqd_t \<Rightarrow> mqueue list \<Rightarrow> (int + int) \<times> mqueue list" where
  "mem_getfd_np h w = (if h < length w then (Inr (int h), w) else (Inl 9, w))"

definition mem_fstat :: "int \<Rightarrow> mqueue list \<Rightarrow> (int + stat) \<times> mqueue list" where
  "mem_fstat fd w =
     (case mem_at w fd of
        None \<Rightarrow> (Inl 9, w)
      | Some q \<Rightarrow> (Inr \<lparr>st_uid = mq_uid q, st_gid = mq_gid q, st_mode = 4096 + mq_perm q\<rparr>, w))"

definition mem_fchown :: "int \<Rightarrow> nat \<Rightarrow> nat \<Rightarrow> mqueue list \<Rightarrow> (int + unit) \<times> mqueue list" where
  "mem_fchown fd uid gid w =
     (case mem_at w fd of
        None \<Rightarrow> (Inl 9, w)
      | Some q \<Rightarrow> (Inr (), w[nat fd := q\<lparr>mq_uid := uid, mq_gid := gid\<rparr>]))"

definition mem_fchmod :: "int \<Rightarrow> nat \<Rightarrow> mqueue list \<Rightarrow> (int + unit) \<times> mqueue list" where
  "mem_fchmod fd perm w =
     (case mem_at w fd of
        None \<Rightarrow> (Inl 9, w)
      | Some q \<Rightarrow> (Inr (), w[nat fd := q\<lparr>mq_perm := perm\<rparr>]))"

definition mem_env :: "mqueue list env" where
  "mem_env =
     \<lparr>PATH_MAX = 1024, MQ_PRIO_MAX = 64, EINVAL = 22, BSD_VISIBLE = True,
      getgrnam = (\<lambda>name. if name = ''wheel'' then Some 0 else None),
      getpwnam = (\<lambda>name. if name = ''root'' then Some 0 else None),
      mq_open = mem_open, mq_open_creat = mem_open_creat, mq_close = mem_close,
      mq_getattr = mem_getattr, mq_send = mem_send, mq_receive = mem_receive,
      mq_unlink = mem_unlink, mq_getfd_np = mem_getfd_np, fstat = mem_fstat,
      fchown = mem_fchown, fchmod = mem_fchmod\<rparr>"

text \<open>A queue \<^verbatim>\<open>/app\<close> of mode 0644 (420), at most 10 messages of at most 8 bytes.\<close>

definition app_queue :: mqueue where
  "app_queue =
     \<lparr>mq_name = ''/app'', mq_uid = 0, mq_gid = 0, mq_perm = 420,
      mq_limits = \<lparr>mq_flags = [], mq_maxmsg = 10, mq_msgsize = 8, mq_curmsgs = 0\<rparr>,
      mq_messages = []\<rparr>"

text \<open>A queue \<^verbatim>\<open>/busy\<close> that is full: at most one message, and one is queued.\<close>

definition busy_queue :: mqueue where
  "busy_queue =
     \<lparr>mq_name = ''/busy'', mq_uid = 0, mq_gid = 0, mq_perm = 420,
      mq_limits = \<lparr>mq_flags = [], mq_maxmsg = 1, mq_msgsize = 8, mq_curmsgs = 0\<rparr>,
      mq_messages = [(''first'', 0)]\<rparr>"

section \<open>Notions used to state the properties\<close>

text \<open>
  The dispatch engine as the specification words it, over the tokens still to be
  read: tokens are taken in pairs of a flag and its value; a flag that some
  descriptor accepts gives its value to that descriptor's parse operation and both
  tokens are consumed; a flag that no descriptor accepts is skipped with a warning
  and only that one token is consumed; a single token left over gets a warning.
\<close>

fun dispatch_spec :: "'w Option_t list \<Rightarrow> string list \<Rightarrow> 'w sys \<Rightarrow> 'w sys" where
  "dispatch_spec options [] st = st"
| "dispatch_spec options [token] st = eprint (Warning_skipping token) st"
| "dispatch_spec options (flag # val # rest) st =
     (case find (\<lambda>option. flag \<in> set (pattern option)) options of
        Some option \<Rightarrow> dispatch_spec options rest (parse option val st)
      | None \<Rightarrow> dispatch_spec options (val # rest) (eprint (Warning_skipping flag) st))"

text \<open>
  A batch as the specification words it: the operation is applied to every target in
  order, each from the state the one before left, and the results are collected.
  The status of the batch is the last result that is not zero, or zero.
\<close>

fun run_all :: "('a \<Rightarrow> 's \<Rightarrow> int \<times> 's) \<Rightarrow> 'a list \<Rightarrow> 's \<Rightarrow> int list \<times> 's" where
  "run_all body [] st = ([], st)"
| "run_all body (x # xs) st =
     (case body x st of
        (r, st') \<Rightarrow> (case run_all body xs st' of (rs, st'') \<Rightarrow> (r # rs, st'')))"

definition last_nonzero :: "int list \<Rightarrow> int" where
  "last_nonzero rs = (case filter (\<lambda>r. r \<noteq> 0) rs of [] \<Rightarrow> 0 | x # xs \<Rightarrow> last (x # xs))"

text \<open>
  The targets that a list of service calls attempts: every operation on one target
  begins with \<^verbatim>\<open>mq_open\<close> without \<^verbatim>\<open>O_CREAT\<close> or is \<^verbatim>\<open>mq_unlink\<close>, on the name
  of the target.
\<close>

fun attempted :: "call list \<Rightarrow> string list" where
  "attempted [] = []"
| "attempted (Call_mq_open name flags # cs) = name # attempted cs"
| "attempted (Call_mq_unlink name # cs) = name # attempted cs"
| "attempted (c # cs) = attempted cs"

text \<open>The table that \<^verbatim>\<open>main\<close> uses for a verb, if it is one of the five.\<close>

definition verb_options :: "'w env \<Rightarrow> string \<Rightarrow> 'w Option_t list option" where
  "verb_options e verb =
     (if verb = ''create'' \<or> verb = ''attr'' then Some (create_options e)
      else if verb = ''info'' \<or> verb = ''cat'' then Some (info_options e)
      else if verb = ''send'' then Some (send_options e)
      else if verb = ''recv'' \<or> verb = ''receive'' then Some (recv_options e)
      else if verb = ''unlink'' \<or> verb = ''rm'' then Some (unlink_options e)
      else None)"

text \<open>
  The loop of \<^verbatim>\<open>create\<close> in \<^verbatim>\<open>main\<close> when every call is given one and the same
  configuration \<open>c\<close>.
\<close>

fun create_loop_with :: "'w env \<Rightarrow> Creation \<Rightarrow> string list \<Rightarrow> int \<Rightarrow> 'w sys \<Rightarrow> int \<times> 'w sys" where
  "create_loop_with e c [] worst st = (worst, st)"
| "create_loop_with e c (queue # it) worst st =
     (case create e queue c st of
        (result, st') \<Rightarrow> create_loop_with e c it (if result \<noteq> 0 then result else worst) st')"

text \<open>
  Reading a number in base 8 as the specification of \<^verbatim>\<open>strtoul\<close> words it: the
  octal digits, the longest run of them at the start of a text, and its value.
\<close>

definition octal_digit :: "char \<Rightarrow> bool" where
  "octal_digit c = (c \<in> set ''01234567'')"

definition octal_value :: "string \<Rightarrow> int" where
  "octal_value ds = foldl (\<lambda>a c. 8 * a + (int (of_char c) - 48)) 0 ds"

definition octal_prefix :: "string \<Rightarrow> string" where
  "octal_prefix text = takeWhile octal_digit text"

text \<open>What is left of a text after its leading white space and one sign, if any.\<close>

definition after_sign :: "string \<Rightarrow> string" where
  "after_sign text =
     (case dropWhile isspace text of
        [] \<Rightarrow> []
      | c # r \<Rightarrow> if c = CHR ''-'' \<or> c = CHR ''+'' then r else c # r)"

section \<open>What the operations leave unchanged\<close>

text \<open>
  Printing, a service call and each subcommand leave the file-scope variables as they
  are, and each subcommand attempts exactly its own target.
\<close>

lemma eprint_fields [simp]:
  "queues (eprint d st) = queues st" "contents (eprint d st) = contents st"
  "priority (eprint d st) = priority st" "creation (eprint d st) = creation st"
  "errno (eprint d st) = errno st" "stderr (eprint d st) = stderr st @ [d]"
  "stdout (eprint d st) = stdout st" "calls (eprint d st) = calls st"
  "world (eprint d st) = world st"
  by (simp_all add: eprint_def)

lemma print_fields [simp]:
  "queues (print x st) = queues st" "contents (print x st) = contents st"
  "priority (print x st) = priority st" "creation (print x st) = creation st"
  "errno (print x st) = errno st" "stderr (print x st) = stderr st"
  "stdout (print x st) = stdout st @ [x]" "calls (print x st) = calls st"
  "world (print x st) = world st"
  by (simp_all add: print_def)

lemma perror_fields [simp]:
  "queues (perror tag st) = queues st" "contents (perror tag st) = contents st"
  "priority (perror tag st) = priority st" "creation (perror tag st) = creation st"
  "errno (perror tag st) = errno st" "stderr (perror tag st) = stderr st @ [Perror tag (errno st)]"
  "stdout (perror tag st) = stdout st" "calls (perror tag st) = calls st"
  "world (perror tag st) = world st"
  by (simp_all add: perror_def)

lemma service_fields [simp]:
  "queues (snd (service c f st)) = queues st" "contents (snd (service c f st)) = contents st"
  "priority (snd (service c f st)) = priority st" "creation (snd (service c f st)) = creation st"
  "stderr (snd (service c f st)) = stderr st" "stdout (snd (service c f st)) = stdout st"
  "calls (snd (service c f st)) = calls st @ [c]"
  by (simp_all add: service_def split: prod.splits sum.splits)

lemma close_result_fields [simp]:
  "queues (snd (close_result e h st)) = queues st" "contents (snd (close_result e h st)) = contents st"
  "priority (snd (close_result e h st)) = priority st"
  "creation (snd (close_result e h st)) = creation st"
  "stderr (snd (close_result e h st)) = stderr st" "stdout (snd (close_result e h st)) = stdout st"
  "calls (snd (close_result e h st)) = calls st @ [Call_mq_close h]"
  by (simp_all add: close_result_def case_prod_beta split: option.splits)

lemma validate_size_fields [simp]:
  "queues (snd (validate_size st)) = queues st" "contents (snd (validate_size st)) = contents st"
  "priority (snd (validate_size st)) = priority st" "creation (snd (validate_size st)) = creation st"
  "stdout (snd (validate_size st)) = stdout st" "calls (snd (validate_size st)) = calls st"
  "world (snd (validate_size st)) = world st" "errno (snd (validate_size st)) = errno st"
  by (simp_all add: validate_size_def Let_def)

lemma validate_depth_fields [simp]:
  "queues (snd (validate_depth st)) = queues st" "contents (snd (validate_depth st)) = contents st"
  "priority (snd (validate_depth st)) = priority st" "creation (snd (validate_depth st)) = creation st"
  "stdout (snd (validate_depth st)) = stdout st" "calls (snd (validate_depth st)) = calls st"
  "world (snd (validate_depth st)) = world st" "errno (snd (validate_depth st)) = errno st"
  by (simp_all add: validate_depth_def Let_def)

lemma attempted_append [simp]: "attempted (xs @ ys) = attempted xs @ attempted ys"
  by (induction xs rule: attempted.induct) simp_all

lemma create_fchown_fields [simp]:
  "queues (snd (snd (create_fchown e h fd status q st))) = queues st"
  "contents (snd (snd (create_fchown e h fd status q st))) = contents st"
  "priority (snd (snd (create_fchown e h fd status q st))) = priority st"
  "creation (snd (snd (create_fchown e h fd status q st))) = creation st"
  "attempted (calls (snd (snd (create_fchown e h fd status q st)))) = attempted (calls st)"
  by (simp_all add: create_fchown_def case_prod_beta Let_def split: option.splits)

lemma create_fchmod_fields [simp]:
  "queues (snd (create_fchmod e h fd status q st)) = queues st"
  "contents (snd (create_fchmod e h fd status q st)) = contents st"
  "priority (snd (create_fchmod e h fd status q st)) = priority st"
  "creation (snd (create_fchmod e h fd status q st)) = creation st"
  "attempted (calls (snd (create_fchmod e h fd status q st))) = attempted (calls st)"
  by (simp_all add: create_fchmod_def case_prod_beta Let_def split: option.splits)

lemma create_bsd_fields [simp]:
  "queues (snd (create_bsd e h q st)) = queues st"
  "contents (snd (create_bsd e h q st)) = contents st"
  "priority (snd (create_bsd e h q st)) = priority st"
  "creation (snd (create_bsd e h q st)) = creation st"
  "attempted (calls (snd (create_bsd e h q st))) = attempted (calls st)"
  by (simp_all add: create_bsd_def case_prod_beta Let_def split: option.splits)

lemma create_opened_fields [simp]:
  "queues (snd (create_opened e handle q st)) = queues st"
  "contents (snd (create_opened e handle q st)) = contents st"
  "priority (snd (create_opened e handle q st)) = priority st"
  "creation (snd (create_opened e handle q st)) = creation st"
  "attempted (calls (snd (create_opened e handle q st))) = attempted (calls st)"
  by (simp_all add: create_opened_def case_prod_beta Let_def split: option.splits)

lemma create_fields [simp]:
  "queues (snd (create e queue q st)) = queues st"
  "contents (snd (create e queue q st)) = contents st"
  "priority (snd (create e queue q st)) = priority st"
  "creation (snd (create e queue q st)) = creation st"
  "attempted (calls (snd (create e queue q st))) = attempted (calls st) @ [queue]"
  by (simp_all add: create_def case_prod_beta Let_def split: option.splits bool.splits)

lemma rm_fields [simp]:
  "queues (snd (rm e queue st)) = queues st"
  "contents (snd (rm e queue st)) = contents st"
  "priority (snd (rm e queue st)) = priority st"
  "creation (snd (rm e queue st)) = creation st"
  "attempted (calls (snd (rm e queue st))) = attempted (calls st) @ [queue]"
  by (simp_all add: rm_def case_prod_beta Let_def split: option.splits)

lemma info_fields [simp]:
  "queues (snd (info e queue st)) = queues st"
  "contents (snd (info e queue st)) = contents st"
  "priority (snd (info e queue st)) = priority st"
  "creation (snd (info e queue st)) = creation st"
  "attempted (calls (snd (info e queue st))) = attempted (calls st) @ [queue]"
  by (simp_all add: info_def case_prod_beta Let_def split: option.splits)

lemma send_fields [simp]:
  "queues (snd (send e queue text prio st)) = queues st"
  "contents (snd (send e queue text prio st)) = contents st"
  "priority (snd (send e queue text prio st)) = priority st"
  "creation (snd (send e queue text prio st)) = creation st"
  "attempted (calls (snd (send e queue text prio st))) = attempted (calls st) @ [queue]"
  by (simp_all add: send_def case_prod_beta Let_def split: option.splits)

lemma recv_fields [simp]:
  "queues (snd (recv e queue st)) = queues st"
  "contents (snd (recv e queue st)) = contents st"
  "priority (snd (recv e queue st)) = priority st"
  "creation (snd (recv e queue st)) = creation st"
  "attempted (calls (snd (recv e queue st))) = attempted (calls st) @ [queue]"
  by (simp_all add: recv_def case_prod_beta Let_def split: option.splits)

section \<open>The sanity check of queue names\<close>

lemma sane_queue_loop_None:
  "sane_queue_loop pmax s n = None \<longleftrightarrow> CHR ''/'' \<in> set (take (pmax - n) s)"
proof (induction s arbitrary: n)
  case Nil
  then show ?case by simp
next
  case (Cons c s)
  show ?case
  proof (cases "n < pmax")
    case True
    then have "pmax - n = Suc (pmax - (n + 1))" by simp
    with True Cons show ?thesis by auto
  next
    case False
    then show ?thesis by simp
  qed
qed

lemma sane_queue_loop_Some:
  "sane_queue_loop pmax s n = Some (q, m) \<Longrightarrow> n \<le> pmax \<Longrightarrow>
     q = drop (pmax - n) s \<and> m = min (n + length s) pmax"
proof (induction s arbitrary: n)
  case Nil
  then show ?case by auto
next
  case (Cons c s)
  show ?case
  proof (cases "n < pmax")
    case True
    then have eq: "pmax - n = Suc (pmax - (n + 1))" by simp
    from True Cons.prems have "sane_queue_loop pmax s (n + 1) = Some (q, m)"
      by (auto split: if_splits)
    from Cons.IH[OF this] True have "q = drop (pmax - (n + 1)) s \<and> m = min (n + 1 + length s) pmax"
      by simp
    with eq show ?thesis by simp
  next
    case False
    with Cons.prems show ?thesis by auto
  qed
qed

lemma sane_queue_verdict:
  assumes "1 \<le> PATH_MAX e"
  shows "fst (sane_queue e s st) \<longleftrightarrow>
      (\<exists>rest. s = CHR ''/'' # rest \<and> CHR ''/'' \<notin> set rest \<and> length s \<le> PATH_MAX e)"
proof (cases s)
  case Nil
  then show ?thesis by (simp add: sane_queue_def)
next
  case (Cons c rest)
  show ?thesis
  proof (cases "c = CHR ''/''")
    case False
    with Cons show ?thesis by (simp add: sane_queue_def)
  next
    case True
    show ?thesis
    proof (cases "sane_queue_loop (PATH_MAX e) rest 1")
      case None
      then have "CHR ''/'' \<in> set (take (PATH_MAX e - 1) rest)"
        by (simp add: sane_queue_loop_None)
      then have "CHR ''/'' \<in> set rest" by (meson in_set_takeD)
      with Cons True None show ?thesis by (simp add: sane_queue_def)
    next
      case (Some qm)
      obtain q m where qm: "qm = (q, m)" by (cases qm)
      from Some qm assms sane_queue_loop_Some[of "PATH_MAX e" rest 1 q m]
      have q: "q = drop (PATH_MAX e - 1) rest" and m: "m = min (1 + length rest) (PATH_MAX e)"
        by auto
      from Some have noslash: "CHR ''/'' \<notin> set (take (PATH_MAX e - 1) rest)"
        using sane_queue_loop_None[of "PATH_MAX e" rest 1] by simp
      show ?thesis
      proof (cases "length rest < PATH_MAX e")
        case True
        then have "take (PATH_MAX e - 1) rest = rest" by simp
        with noslash have "CHR ''/'' \<notin> set rest" by simp
        moreover from True q have "q = []" by simp
        ultimately show ?thesis using Cons \<open>c = CHR ''/''\<close> Some qm True
          by (simp add: sane_queue_def)
      next
        case False
        with q m assms have "q \<noteq> []" "m = PATH_MAX e" by auto
        with Cons \<open>c = CHR ''/''\<close> Some qm False show ?thesis
          by (simp add: sane_queue_def)
      qed
    qed
  qed
qed

lemma sane_queue_state:
  "queues (snd (sane_queue e s st)) = queues st"
  by (simp add: sane_queue_def eprint_def split: list.splits option.splits prod.splits)

lemma parse_queue_queues:
  "queues (parse_queue e s st) = (if fst (sane_queue e s st) then queues st @ [s] else queues st)"
  by (simp add: parse_queue_def case_prod_beta sane_queue_state)

lemma parse_single_queue_rejected:
  "\<not> fst (sane_queue e s st) \<Longrightarrow> queues (parse_single_queue e s st) = queues st"
  by (simp add: parse_single_queue_def case_prod_beta sane_queue_state)

text \<open>
  C7. On a platform whose \<^verbatim>\<open>PATH_MAX\<close> is at least 1, \<^verbatim>\<open>sane_queue\<close> accepts a
  string exactly when it starts with \<^verbatim>\<open>'/'\<close>, has no other \<^verbatim>\<open>'/'\<close>, and is at most
  \<^verbatim>\<open>PATH_MAX\<close> characters long. \<^verbatim>\<open>parse_queue\<close> appends the string to \<^verbatim>\<open>queues\<close>
  exactly when the check accepts it, and neither \<^verbatim>\<open>parse_queue\<close> nor
  \<^verbatim>\<open>parse_single_queue\<close> changes \<^verbatim>\<open>queues\<close> for a string the check rejects.
\<close>

theorem sane_queue_iff:
  "1 \<le> PATH_MAX e \<Longrightarrow>
     (fst (sane_queue e s st) \<longleftrightarrow>
        (\<exists>rest. s = CHR ''/'' # rest \<and> CHR ''/'' \<notin> set rest \<and> length s \<le> PATH_MAX e)) \<and>
     queues (parse_queue e s st) = (if fst (sane_queue e s st) then queues st @ [s] else queues st) \<and>
     (\<not> fst (sane_queue e s st) \<longrightarrow> queues (parse_single_queue e s st) = queues st)"
  using sane_queue_verdict[of e s st] parse_queue_queues[of e s st]
    parse_single_queue_rejected[of e s st]
  by blast

theorem sane_queue_iff_witness:
  "1 \<le> PATH_MAX mem_env \<and> fst (sane_queue mem_env ''/app'' (init mem_env [])) \<and>
   \<not> fst (sane_queue mem_env ''/a/b'' (init mem_env [])) \<and>
   queues (parse_queue mem_env ''/a/b'' (init mem_env [])) = [] \<and>
   queues (parse_single_queue mem_env ''/a/b'' (init mem_env [])) = []"
  using sane_queue_iff[of mem_env "''/app''" "init mem_env []"]
        sane_queue_iff[of mem_env "''/a/b''" "init mem_env []"]
  by (simp add: mem_env_def init_def)

section \<open>The dispatch engine\<close>

lemma match_pattern_set: "match_pattern knobs arg \<longleftrightarrow> arg \<in> set knobs"
  by (induction knobs) auto

lemma match_option_find:
  "match_option options arg = find (\<lambda>option. arg \<in> set (pattern option)) options"
  by (induction options) (simp_all add: match_pattern_set)

lemma match_option_member: "match_option options arg = Some option \<Longrightarrow> option \<in> set options"
  by (induction options) (auto split: if_splits)

lemma parse_options_dispatch:
  "parse_options index argv options st = dispatch_spec options (drop index argv) st"
proof (induction index argv options st rule: parse_options.induct)
  case (1 index argv options st)
  show ?case
  proof (cases "index + 1 < length argv")
    case True
    then have d1: "drop (Suc index) argv = argv ! Suc index # drop (Suc (Suc index)) argv"
      by (simp add: Cons_nth_drop_Suc)
    from True have d0: "drop index argv = argv ! index # drop (Suc index) argv"
      by (simp add: Cons_nth_drop_Suc)
    show ?thesis
    proof (cases "match_option options (argv ! index)")
      case None
      with True have "parse_options index argv options st =
          parse_options (index + 1) argv options (eprint (Warning_skipping (argv ! index)) st)"
        by (subst parse_options.simps) simp
      also have "\<dots> =
          dispatch_spec options (drop (index + 1) argv) (eprint (Warning_skipping (argv ! index)) st)"
        using "1.IH" True None by simp
      finally show ?thesis
        using None by (simp add: d0 d1 match_option_find)
    next
      case (Some option)
      with True have "parse_options index argv options st =
          parse_options (index + 2) argv options (parse option (argv ! (index + 1)) st)"
        by (subst parse_options.simps) simp
      also have "\<dots> =
          dispatch_spec options (drop (index + 2) argv) (parse option (argv ! (index + 1)) st)"
        using "1.IH" True Some by simp
      finally show ?thesis
        using Some by (simp add: d0 d1 match_option_find)
    qed
  next
    case False
    show ?thesis
    proof (cases "index < length argv")
      case True
      with False have "drop index argv = [argv ! index]"
        by (metis Cons_nth_drop_Suc Suc_eq_plus1 drop_all linorder_not_less)
      with True False show ?thesis
        by (subst parse_options.simps) simp
    next
      case False
      then show ?thesis
        by (subst parse_options.simps) simp
    qed
  qed
qed

text \<open>
C3. For every argument list, start index and table, \<^verbatim>\<open>parse_options\<close> does what the
  dispatch engine of the specification does on the arguments from the index on. In
  particular: when a value follows, an argument that the spelling of some option
  matches gives the value to the parse operation of the first such option and the scan
  moves on by two; an argument that no option matches is skipped with a warning and
  the scan moves on by one, so that the next argument is read as a flag; one argument
  left over at the end gets a warning and nothing else; and past the end nothing
  happens. The function is total: it returns a state for every input.
\<close>

theorem parse_options_scan:
  "parse_options index argv options st = dispatch_spec options (drop index argv) st \<and>
   (index + 1 < length argv \<longrightarrow>
      (case find (\<lambda>option. argv ! index \<in> set (pattern option)) options of
         Some option \<Rightarrow>
           parse_options index argv options st =
             parse_options (index + 2) argv options (parse option (argv ! (index + 1)) st)
       | None \<Rightarrow>
           parse_options index argv options st =
             parse_options (index + 1) argv options (eprint (Warning_skipping (argv ! index)) st))) \<and>
   (index + 1 = length argv \<longrightarrow>
      parse_options index argv options st = eprint (Warning_skipping (argv ! index)) st) \<and>
   (length argv \<le> index \<longrightarrow> parse_options index argv options st = st)"
proof (intro conjI impI)
  show "parse_options index argv options st = dispatch_spec options (drop index argv) st"
    by (rule parse_options_dispatch)
next
  assume "index + 1 < length argv"
  then show "case find (\<lambda>option. argv ! index \<in> set (pattern option)) options of
         Some option \<Rightarrow>
           parse_options index argv options st =
             parse_options (index + 2) argv options (parse option (argv ! (index + 1)) st)
       | None \<Rightarrow>
           parse_options index argv options st =
             parse_options (index + 1) argv options (eprint (Warning_skipping (argv ! index)) st)"
    by (subst parse_options.simps, subst (3) parse_options.simps)
       (simp add: match_option_find split: option.splits)
next
  assume "index + 1 = length argv"
  then show "parse_options index argv options st = eprint (Warning_skipping (argv ! index)) st"
    by (subst parse_options.simps) auto
next
  assume "length argv \<le> index"
  then show "parse_options index argv options st = st"
    by (subst parse_options.simps) simp
qed

theorem parse_options_scan_witness:
  "stderr (parse_options 2 [''posixmqcontrol'', ''send'', ''-x'', ''-q'', ''/app'', ''-c'']
      (send_options mem_env) (init mem_env [])) = [Warning_skipping ''-x'', Warning_skipping ''-c''] \<and>
   queues (parse_options 2 [''posixmqcontrol'', ''send'', ''-x'', ''-q'', ''/app'', ''-c'']
      (send_options mem_env) (init mem_env [])) = [''/app''] \<and>
   parse_options 5 [''posixmqcontrol'', ''send'', ''-x'', ''-q'', ''/app'', ''-c'']
      (send_options mem_env) (init mem_env []) = eprint (Warning_skipping ''-c'') (init mem_env []) \<and>
   parse_options 6 [''posixmqcontrol'', ''send'', ''-x'', ''-q'', ''/app'', ''-c'']
      (send_options mem_env) (init mem_env []) = init mem_env []"
  using parse_options_scan[of 2 "[''posixmqcontrol'', ''send'', ''-x'', ''-q'', ''/app'', ''-c'']"
          "send_options mem_env" "init mem_env []"]
        parse_options_scan[of 5 "[''posixmqcontrol'', ''send'', ''-x'', ''-q'', ''/app'', ''-c'']"
          "send_options mem_env" "init mem_env []"]
        parse_options_scan[of 6 "[''posixmqcontrol'', ''send'', ''-x'', ''-q'', ''/app'', ''-c'']"
          "send_options mem_env" "init mem_env []"]
  by (simp add: send_options_def option_queue_def option_content_def option_priority_def
        names_queue_def names_content_def names_priority_def parse_queue_def parse_content_def
        sane_queue_def eprint_def init_def mem_env_def)

section \<open>The configuration is passed by value\<close>

lemma create_loop_with_eq:
  "create_loop e qs worst st = create_loop_with e (creation st) qs worst st"
proof (induction qs arbitrary: worst st)
  case Nil
  show ?case by simp
next
  case (Cons queue it)
  show ?case
    by (simp add: case_prod_beta Cons.IH)
qed

lemma create_loop_with_fields:
  "creation (snd (create_loop_with e c qs worst st)) = creation st \<and>
   queues (snd (create_loop_with e c qs worst st)) = queues st \<and>
   contents (snd (create_loop_with e c qs worst st)) = contents st"
  by (induction qs arbitrary: worst st) (simp_all add: case_prod_beta)

text \<open>
C10. \<^verbatim>\<open>create\<close> works on its own copy of the configuration: whatever the queue, the
  copy and the state, the call leaves the file-scope \<^verbatim>\<open>creation\<close>, \<^verbatim>\<open>queues\<close> and
  \<^verbatim>\<open>contents\<close> as they were. So the loop of \<^verbatim>\<open>main\<close>, which passes the file-scope
  \<^verbatim>\<open>creation\<close> anew at every call, gives every target the configuration that the loop
  started with: what one call assigns to \<^verbatim>\<open>exists\<close>, \<^verbatim>\<open>set_mode\<close>, \<^verbatim>\<open>user\<close> or
  \<^verbatim>\<open>group\<close> of its copy does not reach a later call.
\<close>

theorem create_by_value:
  "creation (snd (create e queue q_creation st)) = creation st \<and>
   queues (snd (create e queue q_creation st)) = queues st \<and>
   contents (snd (create e queue q_creation st)) = contents st \<and>
   create_loop e qs worst st = create_loop_with e (creation st) qs worst st \<and>
   creation (snd (create_loop e qs worst st)) = creation st \<and>
   queues (snd (create_loop e qs worst st)) = queues st \<and>
   contents (snd (create_loop e qs worst st)) = contents st"
  using create_loop_with_fields[of e "creation st" qs worst st]
  by (simp add: create_loop_with_eq)

section \<open>Batches: every target, and the last failure\<close>

lemma last_nonzero_alt:
  "last_nonzero rs =
     (if filter (\<lambda>r. r \<noteq> 0) rs = [] then 0 else last (filter (\<lambda>r. r \<noteq> 0) rs))"
  by (simp add: last_nonzero_def split: list.splits)

lemma last_nonzero_step:
  "last_nonzero (w # r # rs) = last_nonzero ((if r \<noteq> 0 then r else w) # rs)"
  by (simp add: last_nonzero_def split: list.splits)

lemma last_nonzero_zero [simp]: "last_nonzero (0 # rs) = last_nonzero rs"
  by (simp add: last_nonzero_def)

lemma last_nonzero_append:
  "last_nonzero (w # rs @ rs') = last_nonzero (last_nonzero (w # rs) # rs')"
  by (simp add: last_nonzero_def split: list.splits)

lemma run_all_length [simp]: "length (fst (run_all body xs st)) = length xs"
  by (induction xs arbitrary: st) (simp_all add: case_prod_beta)

lemma run_all_append:
  "run_all body (xs @ ys) st =
     (fst (run_all body xs st) @ fst (run_all body ys (snd (run_all body xs st))),
      snd (run_all body ys (snd (run_all body xs st))))"
  by (induction xs arbitrary: st) (simp_all add: case_prod_beta)

lemma run_all_map: "run_all body (map f xs) st = run_all (\<lambda>x. body (f x)) xs st"
  by (induction xs arbitrary: st) (simp_all add: case_prod_beta)

lemma create_loop_run_all:
  "create_loop e qs worst st =
     (last_nonzero (worst # fst (run_all (\<lambda>q s. create e q (creation s) s) qs st)),
      snd (run_all (\<lambda>q s. create e q (creation s) s) qs st))"
proof (induction qs arbitrary: worst st)
  case Nil
  show ?case by (simp add: last_nonzero_def)
next
  case (Cons q it)
  show ?case
    by (simp add: case_prod_beta Cons.IH last_nonzero_step del: last_nonzero_zero)
qed

lemma info_loop_run_all:
  "info_loop e qs worst st =
     (last_nonzero (worst # fst (run_all (info e) qs st)), snd (run_all (info e) qs st))"
proof (induction qs arbitrary: worst st)
  case Nil
  show ?case by (simp add: last_nonzero_def)
next
  case (Cons q it)
  show ?case
    by (simp add: case_prod_beta Cons.IH last_nonzero_step del: last_nonzero_zero)
qed

lemma rm_loop_run_all:
  "rm_loop e qs worst st =
     (last_nonzero (worst # fst (run_all (rm e) qs st)), snd (run_all (rm e) qs st))"
proof (induction qs arbitrary: worst st)
  case Nil
  show ?case by (simp add: last_nonzero_def)
next
  case (Cons q it)
  show ?case
    by (simp add: case_prod_beta Cons.IH last_nonzero_step del: last_nonzero_zero)
qed

lemma send_content_loop_run_all:
  "send_content_loop e queue cs worst st =
     (last_nonzero (worst # fst (run_all (\<lambda>c s. send e queue c (nat (priority s mod 2 ^ 32)) s) cs st)),
      snd (run_all (\<lambda>c s. send e queue c (nat (priority s mod 2 ^ 32)) s) cs st))"
proof (induction cs arbitrary: worst st)
  case Nil
  show ?case by (simp add: last_nonzero_def)
next
  case (Cons c itc)
  show ?case
    by (simp add: case_prod_beta Cons.IH last_nonzero_step del: last_nonzero_zero)
qed

lemma run_all_send_fields [simp]:
  "contents (snd (run_all (\<lambda>c s. send e queue c (f s) s) cs st)) = contents st"
  "queues (snd (run_all (\<lambda>c s. send e queue c (f s) s) cs st)) = queues st"
  "priority (snd (run_all (\<lambda>c s. send e queue c (f s) s) cs st)) = priority st"
  by (induction cs arbitrary: st) (simp_all add: case_prod_beta)

lemma send_loop_run_all:
  "send_loop e qs worst st =
     (last_nonzero (worst # fst (run_all (\<lambda>(q, c) s. send e q c (nat (priority s mod 2 ^ 32)) s)
                                  (List.product qs (contents st)) st)),
      snd (run_all (\<lambda>(q, c) s. send e q c (nat (priority s mod 2 ^ 32)) s)
             (List.product qs (contents st)) st))"
proof (induction qs arbitrary: worst st)
  case Nil
  show ?case by (simp add: last_nonzero_def)
next
  case (Cons q itq)
  show ?case
    by (simp add: case_prod_beta Cons.IH send_content_loop_run_all run_all_append run_all_map
          last_nonzero_append del: last_nonzero_zero)
qed

lemma run_all_attempted:
  assumes "\<And>x s. attempted (calls (snd (body x s))) = attempted (calls s) @ [name x]"
  shows "attempted (calls (snd (run_all body xs st))) = attempted (calls st) @ map name xs"
  by (induction xs arbitrary: st) (simp_all add: case_prod_beta assms)

lemma last_nonzero_two:
  assumes "k < m" "m < length rs" "rs ! k \<noteq> 0" "rs ! m \<noteq> 0"
    and "\<forall>i < length rs. i \<noteq> k \<and> i \<noteq> m \<longrightarrow> rs ! i = 0"
  shows "last_nonzero rs = rs ! m"
proof -
  have rs: "rs = take m rs @ rs ! m # drop (Suc m) rs"
    using assms(2) by (simp add: id_take_nth_drop)
  have "\<forall>x \<in> set (drop (Suc m) rs). x = 0"
  proof
    fix x assume "x \<in> set (drop (Suc m) rs)"
    then obtain j where j: "j < length (drop (Suc m) rs)" "x = drop (Suc m) rs ! j"
      by (metis in_set_conv_nth)
    then have "x = rs ! (Suc m + j)" "Suc m + j < length rs" by auto
    with assms(1,5) show "x = 0" by auto
  qed
  then have "filter (\<lambda>r. r \<noteq> 0) (drop (Suc m) rs) = []"
    by (simp add: filter_empty_conv)
  then have "filter (\<lambda>r. r \<noteq> 0) rs = filter (\<lambda>r. r \<noteq> 0) (take m rs) @ [rs ! m]"
    using assms(4) by (subst rs) simp
  then show ?thesis
    by (simp add: last_nonzero_alt)
qed

lemma run_all_create_fixed:
  "run_all (\<lambda>q s. create e q (creation s) s) qs st = run_all (\<lambda>q. create e q (creation st)) qs st"
proof (induction qs arbitrary: st)
  case Nil
  show ?case by simp
next
  case (Cons q qs)
  show ?case by (simp add: case_prod_beta Cons.IH)
qed

lemma run_all_send_fixed:
  "run_all (\<lambda>x s. send e (fst x) (snd x) (f (priority s)) s) xs st =
   run_all (\<lambda>x. send e (fst x) (snd x) (f (priority st))) xs st"
proof (induction xs arbitrary: st)
  case Nil
  show ?case by simp
next
  case (Cons x xs)
  show ?case by (simp add: case_prod_beta Cons.IH)
qed

text \<open>
C4. For each of the four batch verbs, when the validators pass, \<^verbatim>\<open>main\<close> returns what
  running the operation on every target in order returns: its status is the last
  result that is not zero, or zero when every result is zero, and its final state is
  the state after the last target. The targets are the collected queue names, for
  \<^verbatim>\<open>send\<close> every pair of a queue name and a content, queue by queue; there is one
  result for each target, and the service calls show each target attempted once, in
  order, whatever the results before it. In particular, when exactly the results at
  \<open>k\<close> and \<open>m\<close> with \<open>k < m\<close> are not zero, the status is the result at \<open>m\<close>.
\<close>

theorem batch_status:
  "1 < length argv \<Longrightarrow>
   ((argv ! 1 = ''create'' \<or> argv ! 1 = ''attr'') \<and>
    validate_options (create_options e) (parse_options 2 argv (create_options e) st) = (True, st') \<longrightarrow>
      main_from e argv st =
        (last_nonzero (fst (run_all (\<lambda>q. create e q (creation st')) (queues st') st')),
         snd (run_all (\<lambda>q. create e q (creation st')) (queues st') st')) \<and>
      attempted (calls (snd (main_from e argv st))) = attempted (calls st') @ queues st') \<and>
   ((argv ! 1 = ''info'' \<or> argv ! 1 = ''cat'') \<and>
    validate_options (info_options e) (parse_options 2 argv (info_options e) st) = (True, st') \<longrightarrow>
      main_from e argv st =
        (last_nonzero (fst (run_all (info e) (queues st') st')),
         snd (run_all (info e) (queues st') st')) \<and>
      attempted (calls (snd (main_from e argv st))) = attempted (calls st') @ queues st') \<and>
   ((argv ! 1 = ''unlink'' \<or> argv ! 1 = ''rm'') \<and>
    validate_options (unlink_options e) (parse_options 2 argv (unlink_options e) st) = (True, st') \<longrightarrow>
      main_from e argv st =
        (last_nonzero (fst (run_all (rm e) (queues st') st')),
         snd (run_all (rm e) (queues st') st')) \<and>
      attempted (calls (snd (main_from e argv st))) = attempted (calls st') @ queues st') \<and>
   (argv ! 1 = ''send'' \<and>
    validate_options (send_options e) (parse_options 2 argv (send_options e) st) = (True, st') \<longrightarrow>
      main_from e argv st =
        (last_nonzero (fst (run_all (\<lambda>(q, c). send e q c (nat (priority st' mod 2 ^ 32)))
                              (List.product (queues st') (contents st')) st')),
         snd (run_all (\<lambda>(q, c). send e q c (nat (priority st' mod 2 ^ 32)))
                (List.product (queues st') (contents st')) st')) \<and>
      attempted (calls (snd (main_from e argv st))) =
        attempted (calls st') @ map fst (List.product (queues st') (contents st'))) \<and>
   length (fst (run_all body xs s0)) = length xs \<and>
   (k < m \<and> m < length rs \<and> rs ! k \<noteq> 0 \<and> rs ! m \<noteq> 0 \<and>
    (\<forall>i < length rs. i \<noteq> k \<and> i \<noteq> m \<longrightarrow> rs ! i = 0) \<longrightarrow> last_nonzero rs = rs ! m)"
proof (intro conjI impI)
  assume "1 < length argv"
    and h: "(argv ! 1 = ''create'' \<or> argv ! 1 = ''attr'') \<and>
      validate_options (create_options e) (parse_options 2 argv (create_options e) st) = (True, st')"
  then have m: "main_from e argv st = create_loop e (queues st') 0 st'"
    by (auto simp add: main_from_def)
  show "main_from e argv st =
        (last_nonzero (fst (run_all (\<lambda>q. create e q (creation st')) (queues st') st')),
         snd (run_all (\<lambda>q. create e q (creation st')) (queues st') st'))"
    by (simp add: m create_loop_run_all run_all_create_fixed)
  show "attempted (calls (snd (main_from e argv st))) = attempted (calls st') @ queues st'"
    using run_all_attempted[of "\<lambda>q s. create e q (creation s) s" "\<lambda>q. q" "queues st'" st']
    by (simp add: m create_loop_run_all)
next
  assume "1 < length argv"
    and h: "(argv ! 1 = ''info'' \<or> argv ! 1 = ''cat'') \<and>
      validate_options (info_options e) (parse_options 2 argv (info_options e) st) = (True, st')"
  then have m: "main_from e argv st = info_loop e (queues st') 0 st'"
    by (auto simp add: main_from_def)
  show "main_from e argv st =
        (last_nonzero (fst (run_all (info e) (queues st') st')),
         snd (run_all (info e) (queues st') st'))"
    by (simp add: m info_loop_run_all)
  show "attempted (calls (snd (main_from e argv st))) = attempted (calls st') @ queues st'"
    using run_all_attempted[of "info e" "\<lambda>q. q" "queues st'" st']
    by (simp add: m info_loop_run_all)
next
  assume "1 < length argv"
    and h: "(argv ! 1 = ''unlink'' \<or> argv ! 1 = ''rm'') \<and>
      validate_options (unlink_options e) (parse_options 2 argv (unlink_options e) st) = (True, st')"
  then have m: "main_from e argv st = rm_loop e (queues st') 0 st'"
    by (auto simp add: main_from_def)
  show "main_from e argv st =
        (last_nonzero (fst (run_all (rm e) (queues st') st')),
         snd (run_all (rm e) (queues st') st'))"
    by (simp add: m rm_loop_run_all)
  show "attempted (calls (snd (main_from e argv st))) = attempted (calls st') @ queues st'"
    using run_all_attempted[of "rm e" "\<lambda>q. q" "queues st'" st']
    by (simp add: m rm_loop_run_all)
next
  assume "1 < length argv"
    and h: "argv ! 1 = ''send'' \<and>
      validate_options (send_options e) (parse_options 2 argv (send_options e) st) = (True, st')"
  then have m: "main_from e argv st = send_loop e (queues st') 0 st'"
    by (auto simp add: main_from_def)
  show "main_from e argv st =
        (last_nonzero (fst (run_all (\<lambda>(q, c). send e q c (nat (priority st' mod 2 ^ 32)))
                              (List.product (queues st') (contents st')) st')),
         snd (run_all (\<lambda>(q, c). send e q c (nat (priority st' mod 2 ^ 32)))
                (List.product (queues st') (contents st')) st'))"
    using run_all_send_fixed[of e "\<lambda>p. nat (p mod 2 ^ 32)" "List.product (queues st') (contents st')" st']
    by (simp add: m send_loop_run_all case_prod_unfold)
  show "attempted (calls (snd (main_from e argv st))) =
        attempted (calls st') @ map fst (List.product (queues st') (contents st'))"
    using run_all_attempted[of "\<lambda>(q, c) s. send e q c (nat (priority s mod 2 ^ 32)) s" fst
            "List.product (queues st') (contents st')" st']
    by (simp add: m send_loop_run_all case_prod_unfold)
next
  show "length (fst (run_all body xs s0)) = length xs" by simp
next
  assume "k < m \<and> m < length rs \<and> rs ! k \<noteq> 0 \<and> rs ! m \<noteq> 0 \<and>
    (\<forall>i < length rs. i \<noteq> k \<and> i \<noteq> m \<longrightarrow> rs ! i = 0)"
  then show "last_nonzero rs = rs ! m"
    using last_nonzero_two[of k m rs] by blast
qed

theorem batch_status_witness:
  "fst (main_from mem_env [''posixmqcontrol'', ''unlink'', ''-q'', ''/app'', ''-q'', ''/missing'']
          (init mem_env [app_queue])) = 2 \<and>
   attempted (calls (snd (main_from mem_env
          [''posixmqcontrol'', ''unlink'', ''-q'', ''/app'', ''-q'', ''/missing'']
          (init mem_env [app_queue])))) = [''/app'', ''/missing''] \<and>
   world (snd (main_from mem_env
          [''posixmqcontrol'', ''unlink'', ''-q'', ''/app'', ''-q'', ''/missing'']
          (init mem_env [app_queue]))) = [] \<and>
   fst (main_from mem_env
          [''posixmqcontrol'', ''send'', ''-q'', ''/missing'', ''-q'', ''/app'', ''-q'', ''/busy'', ''-c'', ''hi'']
          (init mem_env [app_queue, busy_queue])) = 35 \<and>
   attempted (calls (snd (main_from mem_env
          [''posixmqcontrol'', ''send'', ''-q'', ''/missing'', ''-q'', ''/app'', ''-q'', ''/busy'', ''-c'', ''hi'']
          (init mem_env [app_queue, busy_queue])))) = [''/missing'', ''/app'', ''/busy''] \<and>
   last_nonzero [2, 0, 35] = 35"
  using batch_status[of "[''posixmqcontrol'', ''unlink'', ''-q'', ''/app'', ''-q'', ''/missing'']"
      mem_env "init mem_env [app_queue]"
      "snd (validate_options (unlink_options mem_env)
         (parse_options 2 [''posixmqcontrol'', ''unlink'', ''-q'', ''/app'', ''-q'', ''/missing'']
            (unlink_options mem_env) (init mem_env [app_queue])))"
      "\<lambda>x s. (0, s)" "[]" "()" 0 2 "[2, 0, 35]"]
    batch_status[of "[''posixmqcontrol'', ''send'', ''-q'', ''/missing'', ''-q'', ''/app'', ''-q'', ''/busy'', ''-c'', ''hi'']"
      mem_env "init mem_env [app_queue, busy_queue]"
      "snd (validate_options (send_options mem_env)
         (parse_options 2 [''posixmqcontrol'', ''send'', ''-q'', ''/missing'', ''-q'', ''/app'', ''-q'', ''/busy'', ''-c'', ''hi'']
            (send_options mem_env) (init mem_env [app_queue, busy_queue])))"
      "\<lambda>x s. (0, s)" "[]" "()" 0 2 "[2, 0, 35]"]
  by (simp add: parse_options_dispatch unlink_options_def send_options_def option_queue_def
        option_content_def option_priority_def names_queue_def names_content_def
        names_priority_def parse_queue_def parse_content_def sane_queue_def
        validate_options_def validate_queue_def validate_content_def validate_always_true_def
        init_def mem_env_def rm_def send_def service_def close_result_def
        mem_unlink_def mem_open_def mem_getattr_def mem_send_def mem_close_def mem_at_def
        app_queue_def busy_queue_def perror_def eprint_def last_nonzero_def less_Suc_eq Let_def)

section \<open>Validation before any operation\<close>

lemma sane_queue_quiet [simp]:
  "calls (snd (sane_queue e s st)) = calls st" "world (snd (sane_queue e s st)) = world st"
  by (simp_all add: sane_queue_def eprint_def split: list.splits option.splits prod.splits)

lemma parsers_quiet [simp]:
  "calls (parse_queue e v st) = calls st" "world (parse_queue e v st) = world st"
  "calls (parse_single_queue e v st) = calls st" "world (parse_single_queue e v st) = world st"
  "calls (parse_depth v st) = calls st" "world (parse_depth v st) = world st"
  "calls (parse_size v st) = calls st" "world (parse_size v st) = world st"
  "calls (parse_block v st) = calls st" "world (parse_block v st) = world st"
  "calls (parse_mode v st) = calls st" "world (parse_mode v st) = world st"
  "calls (parse_group e v st) = calls st" "world (parse_group e v st) = world st"
  "calls (parse_user e v st) = calls st" "world (parse_user e v st) = world st"
  "calls (parse_content v st) = calls st" "world (parse_content v st) = world st"
  "calls (parse_priority e v st) = calls st" "world (parse_priority e v st) = world st"
  by (simp_all add: parse_queue_def parse_single_queue_def parse_depth_def parse_size_def
        parse_block_def parse_mode_def parse_group_def parse_user_def parse_content_def
        parse_priority_def parse_long_def parse_unsigned_def case_prod_beta
        split: option.splits)

lemma dispatch_spec_quiet:
  assumes "\<And>option v s. option \<in> set options \<Longrightarrow>
             calls (parse option v s) = calls s \<and> world (parse option v s) = world s"
  shows "calls (dispatch_spec options args st) = calls st \<and>
         world (dispatch_spec options args st) = world st"
  using assms
proof (induction options args st rule: dispatch_spec.induct)
  case (1 options st)
  show ?case by simp
next
  case (2 options token st)
  show ?case by simp
next
  case (3 options flag val rest st)
  show ?case
  proof (cases "find (\<lambda>option. flag \<in> set (pattern option)) options")
    case None
    with 3 show ?thesis by simp
  next
    case (Some option)
    then have mem: "option \<in> set options"
      by (auto simp add: find_Some_iff)
    from "3.prems"[OF mem, of val st] "3.IH"(2)[OF Some "3.prems"] Some
    show ?thesis by simp
  qed
qed

lemma verb_options_cases:
  "verb_options e verb = Some T \<Longrightarrow>
     T = create_options e \<or> T = info_options e \<or> T = send_options e \<or>
     T = recv_options e \<or> T = unlink_options e"
  by (auto simp add: verb_options_def split: if_splits)

lemma table_parsers_quiet:
  assumes "verb_options e verb = Some T" "option \<in> set T"
  shows "calls (parse option v s) = calls s \<and> world (parse option v s) = world s"
  using verb_options_cases[OF assms(1)] assms(2)
  by (auto simp add: create_options_def info_options_def send_options_def recv_options_def
        unlink_options_def option_queue_def option_single_queue_def option_depth_def
        option_size_def option_block_def option_mode_def option_group_def option_user_def
        option_content_def option_priority_def split: if_splits)

lemma parse_options_quiet:
  assumes "verb_options e verb = Some T"
  shows "calls (parse_options index argv T st) = calls st \<and>
         world (parse_options index argv T st) = world st"
  unfolding parse_options_dispatch
  by (rule dispatch_spec_quiet) (rule table_parsers_quiet[OF assms])

lemma validators_report [simp]:
  "validate_always_true st = (True, st)"
  "validate_mode st = (0 < mode (creation st), st)"
  "validate_queue st = (queues st \<noteq> [], if queues st = [] then eprint Error_no_queue st else st)"
  "validate_content st =
     (contents st \<noteq> [], if contents st = [] then eprint Error_no_content st else st)"
  "validate_single_queue st =
     (queues st \<noteq> [] \<and> tl (queues st) = [],
      if queues st \<noteq> [] \<and> tl (queues st) = [] then st else eprint Error_expected_one_queue st)"
  by (auto simp add: validate_always_true_def validate_mode_def validate_queue_def
        validate_content_def validate_single_queue_def Let_def)

lemma validate_options_tables:
  assumes "verb_options e verb = Some T"
  shows "validate_options T st =
     (list_all (\<lambda>option. fst (validate option st)) T,
      st\<lparr>stderr := stderr st @
          concat (map (\<lambda>option. drop (length (stderr st)) (stderr (snd (validate option st)))) T)\<rparr>)"
  using verb_options_cases[OF assms]
  by (auto simp add: validate_options_def create_options_def info_options_def send_options_def
        recv_options_def unlink_options_def option_queue_def option_single_queue_def
        option_depth_def option_size_def option_block_def option_mode_def option_group_def
        option_user_def option_content_def option_priority_def eprint_def)

lemma main_from_rejects:
  assumes "1 < length argv" "verb_options e (argv ! 1) = Some T"
    and "\<not> fst (validate_options T (parse_options 2 argv T st))"
  shows "main_from e argv st = (EINVAL e, snd (validate_options T (parse_options 2 argv T st)))"
  using assms
  by (auto simp add: main_from_def verb_options_def Let_def case_prod_beta
        split: if_splits bool.splits)

text \<open>
C6. For each of the five verbs with its table, on the state that parsing leaves:
  \<^verbatim>\<open>validate_options\<close> passes exactly when every validator of the table passes; it
  runs all of them, since its output is the output of each validator of the table in
  order, also after one has failed; and when some validator fails, \<^verbatim>\<open>main\<close> returns
  \<^verbatim>\<open>EINVAL\<close>, no service call has been issued and the state of the service is the
  initial one. So a run that issues a service call is one where every validator passed.
\<close>

theorem validation_gate:
  "1 < length argv \<Longrightarrow> verb_options e (argv ! 1) = Some T \<Longrightarrow>
   fst (validate_options T (parse_options 2 argv T (init e w))) =
     list_all (\<lambda>option. fst (validate option (parse_options 2 argv T (init e w)))) T \<and>
   stderr (snd (validate_options T (parse_options 2 argv T (init e w)))) =
     stderr (parse_options 2 argv T (init e w)) @
     concat (map (\<lambda>option. drop (length (stderr (parse_options 2 argv T (init e w))))
                    (stderr (snd (validate option (parse_options 2 argv T (init e w)))))) T) \<and>
   (\<not> list_all (\<lambda>option. fst (validate option (parse_options 2 argv T (init e w)))) T \<longrightarrow>
      fst (main e argv w) = EINVAL e \<and> calls (snd (main e argv w)) = [] \<and>
      world (snd (main e argv w)) = w) \<and>
   (calls (snd (main e argv w)) \<noteq> [] \<longrightarrow>
      list_all (\<lambda>option. fst (validate option (parse_options 2 argv T (init e w)))) T)"
proof -
  assume len: "1 < length argv" and T: "verb_options e (argv ! 1) = Some T"
  let ?st1 = "parse_options 2 argv T (init e w)"
  have v: "validate_options T ?st1 =
     (list_all (\<lambda>option. fst (validate option ?st1)) T,
      ?st1\<lparr>stderr := stderr ?st1 @
          concat (map (\<lambda>option. drop (length (stderr ?st1)) (stderr (snd (validate option ?st1)))) T)\<rparr>)"
    by (rule validate_options_tables[OF T])
  have quiet: "calls ?st1 = []" "world ?st1 = w"
    using parse_options_quiet[OF T, of 2 argv "init e w"] by (simp_all add: init_def)
  have rej: "fst (main e argv w) = EINVAL e \<and> calls (snd (main e argv w)) = [] \<and>
      world (snd (main e argv w)) = w"
    if "\<not> list_all (\<lambda>option. fst (validate option ?st1)) T"
  proof -
    from that v have "\<not> fst (validate_options T ?st1)" by simp
    from main_from_rejects[OF len T this] show ?thesis
      by (simp add: main_def v quiet)
  qed
  have a: "fst (validate_options T ?st1) = list_all (\<lambda>option. fst (validate option ?st1)) T"
    by (simp add: v)
  have b: "stderr (snd (validate_options T ?st1)) = stderr ?st1 @
          concat (map (\<lambda>option. drop (length (stderr ?st1)) (stderr (snd (validate option ?st1)))) T)"
    by (simp add: v)
  from a b rej show ?thesis by blast
qed

theorem validation_gate_witness:
  "verb_options mem_env ([''posixmqcontrol'', ''send'', ''-p'', ''7''] ! 1) = Some (send_options mem_env) \<and>
   \<not> list_all (\<lambda>option. fst (validate option
        (parse_options 2 [''posixmqcontrol'', ''send'', ''-p'', ''7''] (send_options mem_env)
           (init mem_env [app_queue])))) (send_options mem_env) \<and>
   fst (main mem_env [''posixmqcontrol'', ''send'', ''-p'', ''7''] [app_queue]) = 22 \<and>
   calls (snd (main mem_env [''posixmqcontrol'', ''send'', ''-p'', ''7''] [app_queue])) = [] \<and>
   world (snd (main mem_env [''posixmqcontrol'', ''send'', ''-p'', ''7''] [app_queue])) = [app_queue]"
proof -
  have len: "1 < length [''posixmqcontrol'', ''send'', ''-p'', ''7'']"
    by simp
  have T: "verb_options mem_env ([''posixmqcontrol'', ''send'', ''-p'', ''7''] ! 1) =
      Some (send_options mem_env)"
    by (simp add: verb_options_def)
  have st1: "parse_options 2 [''posixmqcontrol'', ''send'', ''-p'', ''7''] (send_options mem_env)
      (init mem_env [app_queue]) = (init mem_env [app_queue])\<lparr>priority := 7\<rparr>"
    by (simp add: parse_options_dispatch send_options_def option_queue_def option_content_def
          option_priority_def names_queue_def names_content_def names_priority_def
          parse_priority_def strtol_def strto_scan_def isspace_def digit_of_def LONG_MAX_def
          mem_env_def init_def Let_def)
  have bad: "\<not> list_all (\<lambda>option. fst (validate option
        (parse_options 2 [''posixmqcontrol'', ''send'', ''-p'', ''7''] (send_options mem_env)
           (init mem_env [app_queue])))) (send_options mem_env)"
    by (simp add: st1) (simp add: send_options_def option_queue_def validate_queue_def init_def)
  have einval: "EINVAL mem_env = 22"
    by (simp add: mem_env_def)
  from validation_gate[OF len T, of "[app_queue]"] bad
  have "fst (main mem_env [''posixmqcontrol'', ''send'', ''-p'', ''7''] [app_queue]) = EINVAL mem_env \<and>
     calls (snd (main mem_env [''posixmqcontrol'', ''send'', ''-p'', ''7''] [app_queue])) = [] \<and>
     world (snd (main mem_env [''posixmqcontrol'', ''send'', ''-p'', ''7''] [app_queue])) = [app_queue]"
    by blast
  with T bad einval show ?thesis by simp
qed

section \<open>One queue for recv\<close>

lemma sane_queue_accepts:
  "fst (sane_queue e s st) \<Longrightarrow> sane_queue e s st' = (True, st')"
  by (auto simp add: sane_queue_def split: list.splits option.splits if_splits)

lemma find_recv_option:
  "f \<in> set names_queue \<Longrightarrow>
     find (\<lambda>option. f \<in> set (pattern option)) (recv_options e) = Some (option_single_queue e)"
  by (simp add: recv_options_def option_single_queue_def)

lemma parse_single_queue_first:
  "fst (sane_queue e q st) \<Longrightarrow> queues st = [] \<Longrightarrow>
     parse_single_queue e q st = st\<lparr>queues := [q]\<rparr>"
  by (simp add: parse_single_queue_def sane_queue_accepts[of e q st st])

lemma parse_single_queue_extra:
  "fst (sane_queue e q st) \<Longrightarrow> queues st \<noteq> [] \<Longrightarrow>
     parse_single_queue e q st = eprint (Warning_ignoring_extra_queue q) st"
  by (simp add: parse_single_queue_def sane_queue_accepts[of e q st st])

lemma dispatch_recv_extra:
  "\<forall>(f, q) \<in> set fqs. f \<in> set names_queue \<and> fst (sane_queue e q st0) \<Longrightarrow>
   queues st \<noteq> [] \<Longrightarrow>
   dispatch_spec (recv_options e) (concat (map (\<lambda>(f, q). [f, q]) fqs)) st =
     st\<lparr>stderr := stderr st @ map (\<lambda>(f, q). Warning_ignoring_extra_queue q) fqs\<rparr>"
proof (induction fqs arbitrary: st)
  case Nil
  show ?case by simp
next
  case (Cons fq fqs)
  obtain f q where fq: "fq = (f, q)" by (cases fq)
  from Cons.prems(1) fq have f: "f \<in> set names_queue" and "fst (sane_queue e q st0)"
    by auto
  then have sane: "fst (sane_queue e q st)"
    using sane_queue_accepts[of e q st0 st] by simp
  have step: "parse_single_queue e q st = eprint (Warning_ignoring_extra_queue q) st"
    by (rule parse_single_queue_extra[OF sane Cons.prems(2)])
  have "dispatch_spec (recv_options e) (concat (map (\<lambda>(f, q). [f, q]) (fq # fqs))) st =
        dispatch_spec (recv_options e) (concat (map (\<lambda>(f, q). [f, q]) fqs))
          (eprint (Warning_ignoring_extra_queue q) st)"
    using step by (simp add: fq find_recv_option[OF f] option_single_queue_def)
  also have "\<dots> = (eprint (Warning_ignoring_extra_queue q) st)\<lparr>stderr :=
        stderr (eprint (Warning_ignoring_extra_queue q) st) @
        map (\<lambda>(f, q). Warning_ignoring_extra_queue q) fqs\<rparr>"
    using Cons.prems by (intro Cons.IH) simp_all
  finally show ?case by (simp add: fq eprint_def)
qed

text \<open>
C5. When the arguments after the verb are pairs of a spelling of the queue option and
  a sane name, and no queue was collected before, parsing them with the table of
  \<^verbatim>\<open>recv\<close> keeps the first name alone in \<^verbatim>\<open>queues\<close> and prints one warning for each
  later name, in order, changing nothing else. \<^verbatim>\<open>validate_single_queue\<close> fails exactly
  when \<^verbatim>\<open>queues\<close> is empty or holds more than one name.
\<close>

theorem single_queue_first_wins:
  "\<forall>(f, q) \<in> set ((f0, q0) # fqs). f \<in> set names_queue \<and> fst (sane_queue e q st) \<Longrightarrow>
   queues st = [] \<Longrightarrow>
   parse_options 2 (prog # verb # concat (map (\<lambda>(f, q). [f, q]) ((f0, q0) # fqs)))
       (recv_options e) st =
     st\<lparr>queues := [q0],
        stderr := stderr st @ map (\<lambda>(f, q). Warning_ignoring_extra_queue q) fqs\<rparr> \<and>
   (\<not> fst (validate_single_queue s) \<longleftrightarrow> queues s = [] \<or> 1 < length (queues s))"
proof (intro conjI)
  assume all: "\<forall>(f, q) \<in> set ((f0, q0) # fqs). f \<in> set names_queue \<and> fst (sane_queue e q st)"
    and empty: "queues st = []"
  from all have f0: "f0 \<in> set names_queue" and q0: "fst (sane_queue e q0 st)"
    and rest: "\<forall>(f, q) \<in> set fqs. f \<in> set names_queue \<and> fst (sane_queue e q st)"
    by auto
  have first: "parse_single_queue e q0 st = st\<lparr>queues := [q0]\<rparr>"
    by (rule parse_single_queue_first[OF q0 empty])
  have "parse_options 2 (prog # verb # concat (map (\<lambda>(f, q). [f, q]) ((f0, q0) # fqs)))
          (recv_options e) st =
        dispatch_spec (recv_options e) (concat (map (\<lambda>(f, q). [f, q]) fqs)) (st\<lparr>queues := [q0]\<rparr>)"
    using first by (simp add: parse_options_dispatch find_recv_option[OF f0] option_single_queue_def)
  also have "\<dots> = (st\<lparr>queues := [q0]\<rparr>)\<lparr>stderr := stderr (st\<lparr>queues := [q0]\<rparr>) @
        map (\<lambda>(f, q). Warning_ignoring_extra_queue q) fqs\<rparr>"
    by (rule dispatch_recv_extra[OF rest]) simp
  finally show "parse_options 2 (prog # verb # concat (map (\<lambda>(f, q). [f, q]) ((f0, q0) # fqs)))
       (recv_options e) st =
     st\<lparr>queues := [q0],
        stderr := stderr st @ map (\<lambda>(f, q). Warning_ignoring_extra_queue q) fqs\<rparr>"
    by simp
next
  show "\<not> fst (validate_single_queue s) \<longleftrightarrow> queues s = [] \<or> 1 < length (queues s)"
    by (cases "queues s") (auto simp add: validate_single_queue_def Let_def)
qed

theorem single_queue_first_wins_witness:
  "''-q'' \<in> set names_queue \<and> fst (sane_queue mem_env ''/app'' (init mem_env [])) \<and>
   ''--queue'' \<in> set names_queue \<and> fst (sane_queue mem_env ''/other'' (init mem_env [])) \<and>
   ''-t'' \<in> set names_queue \<and> fst (sane_queue mem_env ''/third'' (init mem_env [])) \<and>
   queues (init mem_env []) = [] \<and>
   queues (parse_options 2
     [''posixmqcontrol'', ''recv'', ''-q'', ''/app'', ''--queue'', ''/other'', ''-t'', ''/third'']
     (recv_options mem_env) (init mem_env [])) = [''/app''] \<and>
   stderr (parse_options 2
     [''posixmqcontrol'', ''recv'', ''-q'', ''/app'', ''--queue'', ''/other'', ''-t'', ''/third'']
     (recv_options mem_env) (init mem_env [])) =
     [Warning_ignoring_extra_queue ''/other'', Warning_ignoring_extra_queue ''/third''] \<and>
   fst (validate_single_queue (parse_options 2
     [''posixmqcontrol'', ''recv'', ''-q'', ''/app'', ''--queue'', ''/other'', ''-t'', ''/third'']
     (recv_options mem_env) (init mem_env [])))"
proof -
  have h: "\<forall>(f, q) \<in> set [(''-q'', ''/app''), (''--queue'', ''/other''), (''-t'', ''/third'')].
      f \<in> set names_queue \<and> fst (sane_queue mem_env q (init mem_env []))"
    by (simp add: names_queue_def sane_queue_def mem_env_def)
  have e: "queues (init mem_env []) = []"
    by (simp add: init_def)
  from h have h': "''-q'' \<in> set names_queue \<and> fst (sane_queue mem_env ''/app'' (init mem_env [])) \<and>
      ''--queue'' \<in> set names_queue \<and> fst (sane_queue mem_env ''/other'' (init mem_env [])) \<and>
      ''-t'' \<in> set names_queue \<and> fst (sane_queue mem_env ''/third'' (init mem_env []))"
    by simp
  from single_queue_first_wins[OF h e, of "''posixmqcontrol''" "''recv''"
        "parse_options 2
     [''posixmqcontrol'', ''recv'', ''-q'', ''/app'', ''--queue'', ''/other'', ''-t'', ''/third'']
     (recv_options mem_env) (init mem_env [])"] h' e
  show ?thesis by (simp add: init_def)
qed

section \<open>Sending a text longer than the queue allows\<close>

text \<open>
C8. When the queue opens, its attributes are read, and the text is longer than the
  queue's \<^verbatim>\<open>mq_msgsize\<close>: \<^verbatim>\<open>send\<close> issues exactly the calls \<^verbatim>\<open>mq_open\<close>,
  \<^verbatim>\<open>mq_getattr\<close>, \<^verbatim>\<open>mq_send\<close> and \<^verbatim>\<open>mq_close\<close>, and \<^verbatim>\<open>mq_send\<close> is given the text
  with \<^verbatim>\<open>mq_msgsize\<close> as the number of bytes, which is the length of the prefix sent;
  the warning of truncation is printed; and the result is what the service answers:
  the error of \<^verbatim>\<open>mq_send\<close> if the service refuses the capped message, else the result
  of \<^verbatim>\<open>mq_close\<close>. No failure comes from the comparison of the lengths itself.
\<close>

theorem send_truncates:
  "mq_open e queue [O_WRONLY] (world st) = (Inr handle, w1) \<Longrightarrow>
   mq_getattr e handle w1 = (Inr actual, w2) \<Longrightarrow>
   mq_msgsize actual < int (length text) \<Longrightarrow>
   mq_send e handle text (mq_msgsize actual) q_priority w2 = (sent, w3) \<Longrightarrow>
   mq_close e handle w3 = (closed, w4) \<Longrightarrow>
   calls (snd (send e queue text q_priority st)) =
     calls st @ [Call_mq_open queue [O_WRONLY], Call_mq_getattr handle,
                 Call_mq_send handle text (mq_msgsize actual) q_priority, Call_mq_close handle] \<and>
   stderr (snd (send e queue text q_priority st)) =
     stderr st @ Warning_truncating (mq_msgsize actual) #
       (case sent of Inl what \<Rightarrow> [Perror ''mq_send'' what] | Inr _ \<Rightarrow> []) \<and>
   fst (send e queue text q_priority st) =
     (case sent of Inl what \<Rightarrow> what
      | Inr _ \<Rightarrow> (case closed of Inl _ \<Rightarrow> - 1 | Inr _ \<Rightarrow> 0)) \<and>
   world (snd (send e queue text q_priority st)) = w4 \<and>
   (0 \<le> mq_msgsize actual \<longrightarrow>
      int (length (take (nat (mq_msgsize actual)) text)) = mq_msgsize actual)"
  by (simp add: send_def service_def close_result_def perror_def eprint_def Let_def
        split: sum.splits)

theorem send_truncates_witness:
  "mq_open mem_env ''/app'' [O_WRONLY] (world (init mem_env [app_queue])) = (Inr 0, [app_queue]) \<and>
   mq_getattr mem_env 0 [app_queue] = (Inr (mq_limits app_queue), [app_queue]) \<and>
   mq_msgsize (mq_limits app_queue) < int (length ''hello world'') \<and>
   calls (snd (send mem_env ''/app'' ''hello world'' 5 (init mem_env [app_queue]))) =
     [Call_mq_open ''/app'' [O_WRONLY], Call_mq_getattr 0,
      Call_mq_send 0 ''hello world'' 8 5, Call_mq_close 0] \<and>
   stderr (snd (send mem_env ''/app'' ''hello world'' 5 (init mem_env [app_queue]))) =
     [Warning_truncating 8] \<and>
   fst (send mem_env ''/app'' ''hello world'' 5 (init mem_env [app_queue])) = 0 \<and>
   world (snd (send mem_env ''/app'' ''hello world'' 5 (init mem_env [app_queue]))) =
     [app_queue\<lparr>mq_messages := [(''hello wo'', 5)]\<rparr>]"
  using send_truncates[of mem_env "''/app''" "init mem_env [app_queue]" 0 "[app_queue]"
      "mq_limits app_queue" "[app_queue]" "''hello world''" 5 "Inr ()"
      "[app_queue\<lparr>mq_messages := [(''hello wo'', 5)]\<rparr>]" "Inr ()"
      "[app_queue\<lparr>mq_messages := [(''hello wo'', 5)]\<rparr>]"]
  by (simp add: mem_env_def init_def mem_open_def mem_getattr_def mem_send_def mem_close_def
        mem_at_def app_queue_def)

section \<open>Numeric group and user IDs\<close>

lemma octal_digit_cases:
  "octal_digit c \<longleftrightarrow> c = CHR ''0'' \<or> c = CHR ''1'' \<or> c = CHR ''2'' \<or> c = CHR ''3'' \<or>
     c = CHR ''4'' \<or> c = CHR ''5'' \<or> c = CHR ''6'' \<or> c = CHR ''7''"
  by (auto simp add: octal_digit_def)

lemma octal_digit_range:
  "octal_digit c \<longleftrightarrow> 48 \<le> (of_char c :: nat) \<and> (of_char c :: nat) \<le> 55"
proof
  assume "octal_digit c"
  then show "48 \<le> (of_char c :: nat) \<and> (of_char c :: nat) \<le> 55"
    by (auto simp add: octal_digit_cases)
next
  assume "48 \<le> (of_char c :: nat) \<and> (of_char c :: nat) \<le> 55"
  then have "(of_char c :: nat) = of_char CHR ''0'' \<or> (of_char c :: nat) = of_char CHR ''1'' \<or>
      (of_char c :: nat) = of_char CHR ''2'' \<or> (of_char c :: nat) = of_char CHR ''3'' \<or>
      (of_char c :: nat) = of_char CHR ''4'' \<or> (of_char c :: nat) = of_char CHR ''5'' \<or>
      (of_char c :: nat) = of_char CHR ''6'' \<or> (of_char c :: nat) = of_char CHR ''7''"
    by (simp del: of_char_eq_iff) arith
  then show "octal_digit c"
    by (simp only: of_char_eq_iff octal_digit_cases)
qed

lemma digit_of_octal:
  "octal_digit c \<Longrightarrow> digit_of c = Some (of_char c - 48) \<and> (of_char c :: nat) - 48 < 8"
  by (auto simp add: octal_digit_range digit_of_def)

lemma digit_of_not_octal:
  "\<not> octal_digit c \<Longrightarrow> digit_of c = None \<or> (\<exists>d. digit_of c = Some d \<and> 8 \<le> d)"
  by (auto simp add: octal_digit_range digit_of_def Let_def)

lemma strto_digits_octal:
  "strto_digits 8 s acc n =
     (foldl (\<lambda>a c. 8 * a + (int (of_char c) - 48)) acc (takeWhile octal_digit s),
      n + length (takeWhile octal_digit s))"
proof (induction s arbitrary: acc n)
  case Nil
  show ?case by simp
next
  case (Cons c s)
  show ?case
  proof (cases "octal_digit c")
    case True
    then have "int ((of_char c :: nat) - 48) = int (of_char c) - 48"
      by (simp add: octal_digit_range)
    with digit_of_octal[OF True] True show ?thesis
      by (simp add: Cons.IH mult.commute)
  next
    case False
    with digit_of_not_octal[OF False] show ?thesis by auto
  qed
qed

lemma octal_not_space_sign:
  "octal_digit c \<Longrightarrow> \<not> isspace c \<and> c \<noteq> CHR ''-'' \<and> c \<noteq> CHR ''+''"
  by (auto simp add: octal_digit_cases isspace_def)

lemma strto_scan_after_sign:
  "snd (snd (strto_scan 8 text)) = 0 \<longleftrightarrow> octal_prefix (after_sign text) = []"
  by (simp add: strto_scan_def strto_digits_octal octal_prefix_def after_sign_def Let_def
        del: dropWhile_eq_Nil_conv split: list.splits)

lemma strto_scan_octal:
  assumes "octal_prefix text \<noteq> []"
  shows "strto_scan 8 text = (False, octal_value (octal_prefix text), length (octal_prefix text))"
proof -
  from assms obtain c r where t: "text = c # r" and c: "octal_digit c"
    by (cases "text") (auto simp add: octal_prefix_def split: if_splits)
  from octal_not_space_sign[OF c] t show ?thesis
    using assms
    by (simp add: strto_scan_def strto_digits_octal octal_value_def octal_prefix_def Let_def)
qed

lemma foldl_octal_nonneg:
  "0 \<le> a \<Longrightarrow> \<forall>c \<in> set ds. octal_digit c \<Longrightarrow>
     0 \<le> foldl (\<lambda>a c. 8 * a + (int (of_char c) - 48)) a ds"
proof (induction ds arbitrary: a)
  case Nil
  then show ?case by simp
next
  case (Cons c ds)
  from Cons.prems have "0 \<le> 8 * a + (int (of_char c) - 48)"
    by (simp add: octal_digit_range)
  with Cons show ?case by simp
qed

lemma octal_value_prefix_nonneg: "0 \<le> octal_value (octal_prefix text)"
  unfolding octal_value_def octal_prefix_def
  by (rule foldl_octal_nonneg) (auto dest: set_takeWhileD)

lemma parse_unsigned_octal:
  assumes "octal_prefix text \<noteq> []"
  shows "parse_unsigned text seen knob name st =
     ((True, nat (min (octal_value (octal_prefix text)) ULONG_MAX mod 2 ^ 32)), st)"
  using assms
  by (simp add: parse_unsigned_def strtoul_def strto_scan_octal min_def)

lemma parse_unsigned_none:
  assumes "octal_prefix (after_sign text) = []"
  shows "parse_unsigned text seen knob name st =
     (seen, eprint (Warning_format_ignored knob name text) st)"
  using assms strto_scan_after_sign[of "text"]
  by (simp add: parse_unsigned_def strtoul_def case_prod_beta)

text \<open>
C9, as amended. For a text that names no known group (and likewise no known user),
  the fallback is \<^verbatim>\<open>strtoul\<close> in base 8. If the text begins with an octal digit, the flag
  is raised and the ID becomes the value of the longest run of octal digits at the
  start of the text, capped at \<^verbatim>\<open>ULONG_MAX\<close> and reduced to 32 bits, nothing else
  changing: exactly that value when it is below \<open>2 ^ 32\<close>, so that a text in decimal
  digits is read up to its first 8 or 9. If the text has no octal digit after its
  leading white space and one optional sign, the flag and the ID are unchanged and
  a warning is printed.
\<close>

theorem numeric_fallback_octal:
  "(getgrnam e text = None \<longrightarrow>
      (octal_prefix text \<noteq> [] \<longrightarrow>
         parse_group e text st =
           st\<lparr>creation := (creation st)\<lparr>set_group := True,
              group := nat (min (octal_value (octal_prefix text)) ULONG_MAX mod 2 ^ 32)\<rparr>\<rparr>) \<and>
      (octal_prefix text \<noteq> [] \<and> octal_value (octal_prefix text) < 2 ^ 32 \<longrightarrow>
         group (creation (parse_group e text st)) = nat (octal_value (octal_prefix text))) \<and>
      (octal_prefix (after_sign text) = [] \<longrightarrow>
         parse_group e text st = eprint (Warning_format_ignored ''-g'' ''group'' text) st)) \<and>
   (getpwnam e text = None \<longrightarrow>
      (octal_prefix text \<noteq> [] \<longrightarrow>
         parse_user e text st =
           st\<lparr>creation := (creation st)\<lparr>set_user := True,
              user := nat (min (octal_value (octal_prefix text)) ULONG_MAX mod 2 ^ 32)\<rparr>\<rparr>) \<and>
      (octal_prefix text \<noteq> [] \<and> octal_value (octal_prefix text) < 2 ^ 32 \<longrightarrow>
         user (creation (parse_user e text st)) = nat (octal_value (octal_prefix text))) \<and>
      (octal_prefix (after_sign text) = [] \<longrightarrow>
         parse_user e text st = eprint (Warning_format_ignored ''-u'' ''user'' text) st))"
proof -
  have small: "nat (min v ULONG_MAX mod 2 ^ 32) = nat v" if "0 \<le> v" "v < 2 ^ 32" for v :: int
    using that by (simp add: ULONG_MAX_def min_def)
  have g1: "parse_group e text st =
           st\<lparr>creation := (creation st)\<lparr>set_group := True,
              group := nat (min (octal_value (octal_prefix text)) ULONG_MAX mod 2 ^ 32)\<rparr>\<rparr>"
    if "getgrnam e text = None" "octal_prefix text \<noteq> []"
    using that by (simp add: parse_group_def parse_unsigned_octal)
  have g2: "parse_group e text st = eprint (Warning_format_ignored ''-g'' ''group'' text) st"
    if "getgrnam e text = None" "octal_prefix (after_sign text) = []"
    using that by (simp add: parse_group_def parse_unsigned_none eprint_def)
  have u1: "parse_user e text st =
           st\<lparr>creation := (creation st)\<lparr>set_user := True,
              user := nat (min (octal_value (octal_prefix text)) ULONG_MAX mod 2 ^ 32)\<rparr>\<rparr>"
    if "getpwnam e text = None" "octal_prefix text \<noteq> []"
    using that by (simp add: parse_user_def parse_unsigned_octal)
  have u2: "parse_user e text st = eprint (Warning_format_ignored ''-u'' ''user'' text) st"
    if "getpwnam e text = None" "octal_prefix (after_sign text) = []"
    using that by (simp add: parse_user_def parse_unsigned_none eprint_def)
  from g1 g2 u1 u2 small[OF octal_value_prefix_nonneg[of "text"]]
  show ?thesis by simp
qed

theorem numeric_fallback_octal_witness:
  "getgrnam mem_env ''129'' = None \<and> octal_prefix ''129'' = ''12'' \<and>
   set_group (creation (parse_group mem_env ''129'' (init mem_env []))) \<and>
   group (creation (parse_group mem_env ''129'' (init mem_env []))) = 10 \<and>
   getpwnam mem_env ''129'' = None \<and>
   set_user (creation (parse_user mem_env ''129'' (init mem_env []))) \<and>
   user (creation (parse_user mem_env ''129'' (init mem_env []))) = 10 \<and>
   getgrnam mem_env ''staff'' = None \<and> octal_prefix (after_sign ''staff'') = [] \<and>
   parse_group mem_env ''staff'' (init mem_env []) =
     eprint (Warning_format_ignored ''-g'' ''group'' ''staff'') (init mem_env []) \<and>
   getpwnam mem_env ''9'' = None \<and> octal_prefix (after_sign ''9'') = [] \<and>
   parse_user mem_env ''9'' (init mem_env []) =
     eprint (Warning_format_ignored ''-u'' ''user'' ''9'') (init mem_env [])"
  using numeric_fallback_octal[of mem_env "''129''" "init mem_env []"]
    numeric_fallback_octal[of mem_env "''staff''" "init mem_env []"]
    numeric_fallback_octal[of mem_env "''9''" "init mem_env []"]
  by (simp add: mem_env_def octal_prefix_def octal_digit_def octal_value_def after_sign_def
        isspace_def ULONG_MAX_def)

text \<open>
  The text \<^verbatim>\<open>+7\<close> names no group and does not begin with an octal digit, yet the
  group ID changes from 0 to 7: \<^verbatim>\<open>strtoul\<close> accepts the sign.
\<close>

theorem numeric_fallback_counterexample:
  "getgrnam mem_env ''+7'' = None \<and> octal_prefix ''+7'' = [] \<and>
   group (creation (init mem_env [])) = 0 \<and>
   group (creation (parse_group mem_env ''+7'' (init mem_env []))) = 7 \<and>
   group (creation (parse_group mem_env ''+7'' (init mem_env []))) \<noteq>
     group (creation (init mem_env [])) \<and>
   set_group (creation (parse_group mem_env ''+7'' (init mem_env [])))"
  by (simp add: mem_env_def octal_prefix_def octal_digit_def init_def creation_init_def
        parse_group_def parse_unsigned_def strtoul_def strto_scan_def isspace_def digit_of_def
        ULONG_MAX_def Let_def)

section \<open>Creating: what is required of size and depth\<close>

lemma eprint_creation: "eprint d (st\<lparr>creation := c\<rparr>) = (eprint d st)\<lparr>creation := c\<rparr>"
  by (simp add: eprint_def)

lemma perror_creation: "perror tag (st\<lparr>creation := c\<rparr>) = (perror tag st)\<lparr>creation := c\<rparr>"
  by (simp add: perror_def eprint_def)

lemma service_creation:
  "service k f (st\<lparr>creation := c\<rparr>) =
     (fst (service k f st), (snd (service k f st))\<lparr>creation := c\<rparr>)"
  by (simp add: service_def split: prod.splits sum.splits)

lemma close_result_creation:
  "close_result e h (st\<lparr>creation := c\<rparr>) =
     (fst (close_result e h st), (snd (close_result e h st))\<lparr>creation := c\<rparr>)"
  by (simp add: close_result_def service_creation case_prod_beta split: option.splits)

lemma service_errno_creation [simp]:
  "errno (st\<lparr>creation := c\<rparr>) = errno st"
  by simp

lemma create_fchown_creation:
  "create_fchown e h fd status (q\<lparr>depth := d, size_c := s\<rparr>) (st\<lparr>creation := c\<rparr>) =
     (fst (create_fchown e h fd status q st),
      (fst (snd (create_fchown e h fd status q st)))\<lparr>depth := d, size_c := s\<rparr>,
      (snd (snd (create_fchown e h fd status q st)))\<lparr>creation := c\<rparr>)"
  by (simp add: create_fchown_def service_creation close_result_creation perror_creation
        case_prod_beta Let_def split: option.splits)

lemma create_fchmod_creation:
  "create_fchmod e h fd status (q\<lparr>depth := d, size_c := s\<rparr>) (st\<lparr>creation := c\<rparr>) =
     (fst (create_fchmod e h fd status q st),
      (snd (create_fchmod e h fd status q st))\<lparr>creation := c\<rparr>)"
  by (simp add: create_fchmod_def service_creation close_result_creation perror_creation
        case_prod_beta Let_def split: option.splits)

lemma create_bsd_creation:
  "create_bsd e h (q\<lparr>depth := d, size_c := s\<rparr>) (st\<lparr>creation := c\<rparr>) =
     (fst (create_bsd e h q st), (snd (create_bsd e h q st))\<lparr>creation := c\<rparr>)"
  by (simp add: create_bsd_def service_creation close_result_creation perror_creation
        create_fchown_creation create_fchmod_creation
        case_prod_beta Let_def split: option.splits)

lemma create_opened_creation:
  "create_opened e handle (q\<lparr>depth := d, size_c := s\<rparr>) (st\<lparr>creation := c\<rparr>) =
     (fst (create_opened e handle q st), (snd (create_opened e handle q st))\<lparr>creation := c\<rparr>)"
  by (simp add: create_opened_def create_bsd_creation close_result_creation perror_creation
        case_prod_beta Let_def split: option.splits)

lemma service_Inr:
  "f (world st) = (Inr r, w) \<Longrightarrow> service k f st = (Some r, st\<lparr>calls := calls st @ [k], world := w\<rparr>)"
  by (simp add: service_def)

lemma service_Inl:
  "f (world st) = (Inl en, w) \<Longrightarrow>
     service k f st = (None, st\<lparr>errno := en, calls := calls st @ [k], world := w\<rparr>)"
  by (simp add: service_def)

lemma create_existing:
  assumes "mq_open e queue (if block q then [O_RDWR] else [O_RDWR, O_NONBLOCK]) (world st) = (Inr h, w1)"
  shows "create e queue (q\<lparr>depth := d, size_c := s\<rparr>) (st\<lparr>creation := c\<rparr>) =
     (fst (create e queue q st), (snd (create e queue q st))\<lparr>creation := c\<rparr>)"
proof -
  define flags where "flags = (if block q then [O_RDWR] else [O_RDWR, O_NONBLOCK])"
  define st1 where "st1 = st\<lparr>calls := calls st @ [Call_mq_open queue flags], world := w1\<rparr>"
  have r1: "q\<lparr>depth := d, size_c := s, exists := True\<rparr> = q\<lparr>exists := True, depth := d, size_c := s\<rparr>"
    by simp
  have r2: "st\<lparr>creation := c, calls := k, world := w1\<rparr> = st\<lparr>calls := k, world := w1, creation := c\<rparr>"
    for k
    by simp
  have 1: "create e queue (q\<lparr>depth := d, size_c := s\<rparr>) (st\<lparr>creation := c\<rparr>) =
      create_opened e (Some h) ((q\<lparr>exists := True\<rparr>)\<lparr>depth := d, size_c := s\<rparr>) (st1\<lparr>creation := c\<rparr>)"
    using assms
    by (cases "block q") (simp_all add: create_def service_def flag_or_def flags_def st1_def r1 r2)
  have 2: "create e queue q st = create_opened e (Some h) (q\<lparr>exists := True\<rparr>) st1"
    using assms by (cases "block q") (simp_all add: create_def service_def flag_or_def flags_def st1_def)
  show ?thesis
    by (simp only: 1 2 create_opened_creation)
qed

lemma create_rejected:
  assumes "mq_open e queue (if block q then [O_RDWR] else [O_RDWR, O_NONBLOCK]) (world st) = (Inl en, w1)"
    and "\<not> exists (creation st)" "\<not> (0 < size_c (creation st) \<and> 0 < depth (creation st))"
  shows "create e queue q st =
     (en, st\<lparr>errno := en,
            stderr := stderr st @
              [if 0 < size_c (creation st) then Error_depth_not_provided else Error_size_not_provided,
               Perror ''mq_open(create)'' en],
            calls := calls st @ [Call_mq_open queue (if block q then [O_RDWR] else [O_RDWR, O_NONBLOCK])],
            world := w1\<rparr>)"
  using assms
  by (cases "block q")
     (auto simp add: create_def service_def flag_or_def validate_size_def validate_depth_def
        create_opened_def perror_def eprint_def Let_def)

lemma create_creating:
  assumes "mq_open e queue (if block q then [O_RDWR] else [O_RDWR, O_NONBLOCK]) (world st) = (Inl en, w1)"
    and "0 < size_c (creation st)" "0 < depth (creation st)"
  shows "create e queue q st =
     (case service
         (Call_mq_open_creat queue (if block q then [O_RDWR, O_CREAT] else [O_RDWR, O_NONBLOCK, O_CREAT])
            (mode q)
            \<lparr>mq_flags = (if block q then [] else [O_NONBLOCK]), mq_maxmsg = depth q,
               mq_msgsize = size_c q, mq_curmsgs = 0\<rparr>)
         (mq_open_creat e queue (if block q then [O_RDWR, O_CREAT] else [O_RDWR, O_NONBLOCK, O_CREAT])
            (mode q)
            \<lparr>mq_flags = (if block q then [] else [O_NONBLOCK]), mq_maxmsg = depth q,
               mq_msgsize = size_c q, mq_curmsgs = 0\<rparr>)
         (st\<lparr>errno := en,
             calls := calls st @ [Call_mq_open queue (if block q then [O_RDWR] else [O_RDWR, O_NONBLOCK])],
             world := w1\<rparr>) of
        (handle, st') \<Rightarrow> create_opened e handle (q\<lparr>exists := False, set_mode := False\<rparr>) st')"
  using assms
  by (cases "block q")
     (simp_all add: create_def service_Inl flag_or_def validate_size_def validate_depth_def Let_def)

text \<open>
C2, as amended. \<^verbatim>\<open>create\<close> first asks the service for the queue, with \<^verbatim>\<open>mq_open\<close>
  without \<^verbatim>\<open>O_CREAT\<close>. If that call succeeds, the size and the depth play no part:
  whatever they are in the copy that \<^verbatim>\<open>create\<close> is given and in the file-scope
  \<^verbatim>\<open>creation\<close>, the result and the final state are the same. If that call fails and
  the file-scope size or depth is not positive (\<^verbatim>\<open>exists\<close> being false there, as it
  always is), no other service call is made: the diagnostic of the first failing
  validator is printed, the size being checked first, then the error of the failed
  \<^verbatim>\<open>mq_open\<close>, and that error is the result. If that call fails and both are
  positive, the next call is \<^verbatim>\<open>mq_open\<close> with \<^verbatim>\<open>O_CREAT\<close>, the mode and the requested
  depth and size, and \<^verbatim>\<open>set_mode\<close> is cleared in the copy.
\<close>

theorem create_requirements:
  "(mq_open e queue (if block q then [O_RDWR] else [O_RDWR, O_NONBLOCK]) (world st) = (Inr h, w1) \<longrightarrow>
      create e queue (q\<lparr>depth := d, size_c := s\<rparr>) (st\<lparr>creation := c\<rparr>) =
        (fst (create e queue q st), (snd (create e queue q st))\<lparr>creation := c\<rparr>)) \<and>
   (mq_open e queue (if block q then [O_RDWR] else [O_RDWR, O_NONBLOCK]) (world st) = (Inl en, w1) \<and>
    \<not> exists (creation st) \<and> \<not> (0 < size_c (creation st) \<and> 0 < depth (creation st)) \<longrightarrow>
      create e queue q st =
        (en, st\<lparr>errno := en,
               stderr := stderr st @
                 [if 0 < size_c (creation st) then Error_depth_not_provided else Error_size_not_provided,
                  Perror ''mq_open(create)'' en],
               calls := calls st @
                 [Call_mq_open queue (if block q then [O_RDWR] else [O_RDWR, O_NONBLOCK])],
               world := w1\<rparr>)) \<and>
   (mq_open e queue (if block q then [O_RDWR] else [O_RDWR, O_NONBLOCK]) (world st) = (Inl en, w1) \<and>
    0 < size_c (creation st) \<and> 0 < depth (creation st) \<longrightarrow>
      create e queue q st =
        (case service
            (Call_mq_open_creat queue
               (if block q then [O_RDWR, O_CREAT] else [O_RDWR, O_NONBLOCK, O_CREAT]) (mode q)
               \<lparr>mq_flags = (if block q then [] else [O_NONBLOCK]), mq_maxmsg = depth q,
                  mq_msgsize = size_c q, mq_curmsgs = 0\<rparr>)
            (mq_open_creat e queue
               (if block q then [O_RDWR, O_CREAT] else [O_RDWR, O_NONBLOCK, O_CREAT]) (mode q)
               \<lparr>mq_flags = (if block q then [] else [O_NONBLOCK]), mq_maxmsg = depth q,
                  mq_msgsize = size_c q, mq_curmsgs = 0\<rparr>)
            (st\<lparr>errno := en,
                calls := calls st @
                  [Call_mq_open queue (if block q then [O_RDWR] else [O_RDWR, O_NONBLOCK])],
                world := w1\<rparr>) of
           (handle, st') \<Rightarrow> create_opened e handle (q\<lparr>exists := False, set_mode := False\<rparr>) st'))"
  using create_existing[where e = e and queue = queue and q = q and st = st and h = h
      and ?w1.0 = w1 and d = d and s = s and c = c]
    create_rejected[where e = e and queue = queue and q = q and st = st and en = en and ?w1.0 = w1]
    create_creating[where e = e and queue = queue and q = q and st = st and en = en and ?w1.0 = w1]
  by blast

theorem create_requirements_witness:
  "mq_open mem_env ''/app'' (if block creation_init then [O_RDWR] else [O_RDWR, O_NONBLOCK])
      (world (init mem_env [app_queue])) = (Inr 0, [app_queue]) \<and>
   create mem_env ''/app'' (creation_init\<lparr>depth := 10, size_c := 100\<rparr>)
      ((init mem_env [app_queue])\<lparr>creation := creation_init\<lparr>depth := 10, size_c := 100\<rparr>\<rparr>) =
     (fst (create mem_env ''/app'' creation_init (init mem_env [app_queue])),
      (snd (create mem_env ''/app'' creation_init (init mem_env [app_queue])))
        \<lparr>creation := creation_init\<lparr>depth := 10, size_c := 100\<rparr>\<rparr>) \<and>
   mq_open mem_env ''/new'' (if block creation_init then [O_RDWR] else [O_RDWR, O_NONBLOCK])
      (world (init mem_env [app_queue])) = (Inl 2, [app_queue]) \<and>
   \<not> exists (creation (init mem_env [app_queue])) \<and>
   \<not> (0 < size_c (creation (init mem_env [app_queue])) \<and>
      0 < depth (creation (init mem_env [app_queue]))) \<and>
   create mem_env ''/new'' creation_init (init mem_env [app_queue]) =
     (2, (init mem_env [app_queue])\<lparr>errno := 2,
           stderr := [Error_size_not_provided, Perror ''mq_open(create)'' 2],
           calls := [Call_mq_open ''/new'' [O_RDWR]]\<rparr>) \<and>
   0 < size_c (creation ((init mem_env [app_queue])\<lparr>creation := creation_init\<lparr>depth := 10, size_c := 100\<rparr>\<rparr>)) \<and>
   calls (snd (create mem_env ''/new'' (creation_init\<lparr>depth := 10, size_c := 100\<rparr>)
      ((init mem_env [app_queue])\<lparr>creation := creation_init\<lparr>depth := 10, size_c := 100\<rparr>\<rparr>))) =
     [Call_mq_open ''/new'' [O_RDWR],
      Call_mq_open_creat ''/new'' [O_RDWR, O_CREAT] 493
        \<lparr>mq_flags = [], mq_maxmsg = 10, mq_msgsize = 100, mq_curmsgs = 0\<rparr>,
      Call_mq_getfd_np 1, Call_fstat 1, Call_mq_close 1]"
  using create_requirements[where e = mem_env and queue = "''/app''" and q = creation_init
      and st = "init mem_env [app_queue]" and h = 0 and ?w1.0 = "[app_queue]" and d = 10 and s = 100
      and c = "creation_init\<lparr>depth := 10, size_c := 100\<rparr>" and en = 2]
    create_requirements[where e = mem_env and queue = "''/new''" and q = creation_init
      and st = "init mem_env [app_queue]" and h = 0 and ?w1.0 = "[app_queue]" and d = 10 and s = 100
      and c = "creation_init" and en = 2]
    create_requirements[where e = mem_env and queue = "''/new''"
      and q = "creation_init\<lparr>depth := 10, size_c := 100\<rparr>"
      and st = "(init mem_env [app_queue])\<lparr>creation := creation_init\<lparr>depth := 10, size_c := 100\<rparr>\<rparr>"
      and h = 0 and ?w1.0 = "[app_queue]" and d = 10 and s = 100 and c = "creation_init" and en = 2]
  by (simp add: mem_env_def init_def creation_init_def mem_open_def mem_open_creat_def
        app_queue_def service_def create_opened_def create_bsd_def create_fchown_def
        create_fchmod_def close_result_def mem_getfd_np_def mem_fstat_def mem_close_def
        mem_at_def Let_def)

text \<open>
  A queue \<^verbatim>\<open>/new\<close> that does not exist, with the size and depth left at their defaults:
  the rejection comes after the call \<^verbatim>\<open>mq_open\<close> that found the queue missing, and the
  result is the error of that call, \<^verbatim>\<open>ENOENT\<close>, not \<^verbatim>\<open>EINVAL\<close>.
\<close>

theorem create_requirements_counterexample:
  "\<not> 0 < size_c creation_init \<and>
   calls (snd (create mem_env ''/new'' creation_init (init mem_env [app_queue]))) =
     [Call_mq_open ''/new'' [O_RDWR]] \<and>
   calls (snd (create mem_env ''/new'' creation_init (init mem_env [app_queue]))) \<noteq> [] \<and>
   fst (create mem_env ''/new'' creation_init (init mem_env [app_queue])) = 2 \<and>
   fst (create mem_env ''/new'' creation_init (init mem_env [app_queue])) \<noteq> EINVAL mem_env"
  by (simp add: create_def service_def validate_size_def create_opened_def perror_def eprint_def
        mem_env_def init_def creation_init_def mem_open_def app_queue_def Let_def)

section \<open>The mask of the mode comparison\<close>

lemma strtol_644: "strtol ''644'' 8 = (420, 3)"
  by (simp add: strtol_def strto_scan_def isspace_def digit_of_def LONG_MAX_def Let_def)

lemma strtol_545: "strtol ''545'' 8 = (357, 3)"
  by (simp add: strtol_def strto_scan_def isspace_def digit_of_def LONG_MAX_def Let_def)

text \<open>
C1. The test before \<^verbatim>\<open>fchmod\<close> compares the requested mode with the mode of the status
  masked by \<^verbatim>\<open>0x06777\<close>, a hexadecimal constant, where the permission bits are the
  octal \<^verbatim>\<open>07777\<close>. Two runs on the in-memory service show the effect. With \<^verbatim>\<open>/app\<close> of
  mode 0644, \<^verbatim>\<open>create -q /app -m 644\<close> asks for the mode the queue has, and
  \<^verbatim>\<open>fchmod\<close> is called all the same, since the mask turns 0644 into 0444. With
  \<^verbatim>\<open>/app\<close> of mode 0755, \<^verbatim>\<open>create -q /app -m 545\<close> asks for another mode, and
  \<^verbatim>\<open>fchmod\<close> is not called, since the mask turns 0755 into 0545.
\<close>

theorem create_mode_mask_defect:
  "mq_perm app_queue = 420 \<and>
   mode (creation (parse_options 2 [''posixmqcontrol'', ''create'', ''-q'', ''/app'', ''-m'', ''644'']
           (create_options mem_env) (init mem_env [app_queue]))) = 420 \<and>
   main mem_env [''posixmqcontrol'', ''create'', ''-q'', ''/app'', ''-m'', ''644''] [app_queue] =
     (0, (init mem_env [app_queue])\<lparr>queues := [''/app''],
           creation := creation_init\<lparr>set_mode := True, mode := 420\<rparr>,
           calls := [Call_mq_open ''/app'' [O_RDWR], Call_mq_getfd_np 0, Call_fstat 0,
                     Call_fchmod 0 420, Call_mq_close 0]\<rparr>) \<and>
   mq_perm (app_queue\<lparr>mq_perm := 493\<rparr>) \<noteq> 357 \<and>
   main mem_env [''posixmqcontrol'', ''create'', ''-q'', ''/app'', ''-m'', ''545'']
       [app_queue\<lparr>mq_perm := 493\<rparr>] =
     (0, (init mem_env [app_queue\<lparr>mq_perm := 493\<rparr>])\<lparr>queues := [''/app''],
           creation := creation_init\<lparr>set_mode := True, mode := 357\<rparr>,
           calls := [Call_mq_open ''/app'' [O_RDWR], Call_mq_getfd_np 0, Call_fstat 0,
                     Call_mq_close 0]\<rparr>)"
  by (simp add: main_def main_from_def parse_options_dispatch create_options_def
        option_queue_def option_depth_def option_size_def option_block_def option_mode_def
        option_group_def option_user_def names_queue_def names_depth_def names_size_def
        names_block_def names_mode_def names_group_def names_user_def
        parse_queue_def sane_queue_def parse_mode_def strtol_644 strtol_545
        validate_options_def validate_queue_def validate_mode_def validate_always_true_def
        create_def create_opened_def create_bsd_def create_fchown_def create_fchmod_def
        service_def close_result_def
        mem_env_def init_def creation_init_def app_queue_def
        mem_open_def mem_getfd_np_def mem_fstat_def mem_fchmod_def mem_close_def mem_at_def
        Let_def)

end
